theory Spec2Isabelle
  imports Complex_Main "HOL-Library.Word"
begin

section \<open>Host data\<close>

text \<open>
  The interpreter is written in Go. Its \<open>float64\<close> is kept abstract here: it is the type
  variable \<open>'f\<close>, and the operations of the Go runtime and of package \<open>math\<close> that the
  primitive kernel uses are the fields of the record \<open>host\<close>. An \<open>int64\<close> is a 64-bit
  word. \<open>datum\<close> is what \<open>Value()\<close> hands back as an \<open>interface{}\<close>.
\<close>

datatype 'f datum =
    HNil
  | HBool bool
  | HString string
  | HInt64 "64 word"
  | HFloat64 'f

record 'f host =
  f_add :: "'f \<Rightarrow> 'f \<Rightarrow> 'f"
  f_sub :: "'f \<Rightarrow> 'f \<Rightarrow> 'f"
  f_mul :: "'f \<Rightarrow> 'f \<Rightarrow> 'f"
  f_quo :: "'f \<Rightarrow> 'f \<Rightarrow> 'f"
  math_Pow :: "'f \<Rightarrow> 'f \<Rightarrow> 'f"
  math_Mod :: "'f \<Rightarrow> 'f \<Rightarrow> 'f"
  math_Ceil :: "'f \<Rightarrow> 'f"
  f_eq :: "'f \<Rightarrow> 'f \<Rightarrow> bool"
  f_lt :: "'f \<Rightarrow> 'f \<Rightarrow> bool"
  f_le :: "'f \<Rightarrow> 'f \<Rightarrow> bool"
  f_hundred :: "'f"
  float64_of_int64 :: "64 word \<Rightarrow> 'f"
  int64_of_float64 :: "'f \<Rightarrow> 64 word"
  Sprintf_v :: "'f datum \<Rightarrow> string"
  strings_ToLower :: "string \<Rightarrow> string"
  strings_ToUpper :: "string \<Rightarrow> string"

section \<open>Tokens\<close>

text \<open>
  The operator tokens the engine matches on. \<open>Token_zero\<close> stands for the zero value
  of \<open>tokens.Token\<close>, which \<open>getEffectOperator\<close> returns when no case applies.
\<close>

datatype Token =
    Token_zero
  | ASSIGN | ADD_ASSIGN | SUB_ASSIGN | MUL_ASSIGN | PWR_ASSIGN | QUO_ASSIGN | REM_ASSIGN
  | INC | DEC
  | ADD | SUB | MUL | PWR | QUO | REM
  | EQUALS | NOT_EQUALS | LESS | GREATER | LESS_EQUAL | GREATER_EQUAL
  | AND | OR

section \<open>Classes and values of the primitive kernel\<close>

text \<open>
  The nine classes of \<open>literals.go\<close>. \<open>NilLiteral\<close> is its own class in the source;
  its class side is \<open>NilLiteral_class\<close> here. The last four constructors are the carriers
  the engine dispatches on but which are declared in other files of the repository:
  \<open>GenericObject\<close>, \<open>Iterable\<close> (with its \<open>ParentType\<close>), the \<open>Error\<close> class and
  \<open>Type\<close> (with its \<open>fields\<close>).
\<close>

datatype Class =
    NilLiteral_class
  | Boolean
  | String_class
  | Number
  | Double
  | Float
  | Integer
  | Date
  | DateTime
  | GenericObject
  | Iterable_class Class
  | Error_class
  | Type "(string \<times> Class) list"

datatype 'f ValueObject =
    NilLiteral
  | BooleanLiteral bool
  | StringLiteral string
  | NumberLiteral 'f
  | DoubleLiteral 'f
  | FloatLiteral 'f
  | IntegerLiteral "64 word"
  | DateLiteral
  | DateTimeLiteral
  | Iterable Class "'f ValueObject list"
  | Error_value string

text \<open>
  Every way a call can end other than by returning a value: \<open>Panic\<close> is a Go runtime
  fault (a failed type assertion, an index out of range, a call of a nil func); the others
  are returned \<open>error\<close> values. \<open>NodeError\<close> drops the source position of the node and
  does not render \<open>%T\<close>; \<open>NodeError_of err\<close> is \<open>NodeError(node, err.Error())\<close>.
\<close>

datatype 'f error =
    Panic string
  | CannotSetProperty string Class
  | CannotConstruct Class Class
  | CannotOperate Token Class Class
  | ArgumentCount nat nat
  | NodeError string
  | NodeError_of "'f error"
  | NotIterableError
  | InoperableSwitchTargetError
  | Thrown "'f ValueObject"

type_synonym 'f ConstructorFn = "'f ValueObject \<Rightarrow> 'f error + 'f ValueObject"
type_synonym 'f ConstructorMap = "Class \<rightharpoonup> 'f ConstructorFn"
type_synonym 'f OperatorFn = "'f ValueObject \<Rightarrow> 'f ValueObject \<Rightarrow> 'f error + 'f ValueObject"
type_synonym 'f OperatorRules = "Class \<times> Token \<rightharpoonup> 'f OperatorFn"
type_synonym 'f ComparatorRules = "Class \<times> Token \<rightharpoonup> 'f OperatorFn"
type_synonym 'f fnHandler =
  "'f ValueObject list \<Rightarrow> 'f ValueObject option \<Rightarrow> ('f error + 'f ValueObject option) option"

text \<open>
  A \<open>Function\<close>: declared argument classes, return class (\<open>None\<close> is Go's \<open>nil\<close>) and
  handler (\<open>None\<close> is the nil func). A handler that does not return yields \<open>None\<close>.
\<close>

record 'f Function =
  arguments :: "Class list"
  returns :: "Class option"
  handler :: "'f fnHandler option"

datatype 'f Object =
    ClassObject Class
  | ValueObj "'f ValueObject"
  | FunctionObject "'f Function"

fun ClassName :: "Class \<Rightarrow> string" where
  "ClassName NilLiteral_class = ''<nil>''"
| "ClassName Boolean = ''Boolean''"
| "ClassName String_class = ''String''"
| "ClassName Number = ''Number''"
| "ClassName Double = ''Double''"
| "ClassName Float = ''Float''"
| "ClassName Integer = ''Integer''"
| "ClassName Date = ''Date''"
| "ClassName DateTime = ''DateTime''"
| "ClassName GenericObject = ''GenericObject''"
| "ClassName (Iterable_class c) = ''Iterable''"
| "ClassName Error_class = ''Error''"
| "ClassName (Type fs) = ''Type''"

fun Class_of :: "'f ValueObject \<Rightarrow> Class" where
  "Class_of NilLiteral = NilLiteral_class"
| "Class_of (BooleanLiteral b) = Boolean"
| "Class_of (StringLiteral s) = String_class"
| "Class_of (NumberLiteral x) = Number"
| "Class_of (DoubleLiteral x) = Double"
| "Class_of (FloatLiteral x) = Float"
| "Class_of (IntegerLiteral i) = Integer"
| "Class_of DateLiteral = Date"
| "Class_of DateTimeLiteral = DateTime"
| "Class_of (Iterable c items) = Iterable_class c"
| "Class_of (Error_value m) = Error_class"

fun Value :: "'f ValueObject \<Rightarrow> 'f datum" where
  "Value NilLiteral = HNil"
| "Value (BooleanLiteral b) = HBool b"
| "Value (StringLiteral s) = HString s"
| "Value (NumberLiteral x) = HFloat64 x"
| "Value (DoubleLiteral x) = HFloat64 x"
| "Value (FloatLiteral x) = HFloat64 x"
| "Value (IntegerLiteral i) = HInt64 i"
| "Value DateLiteral = HNil"
| "Value DateTimeLiteral = HNil"
| "Value (Iterable c items) = HNil"
| "Value (Error_value m) = HString m"


section \<open>Registries\<close>

text \<open>
  Modelled from the spec: \<open>ConstructorMap\<close>, \<open>OperatorRules\<close> and \<open>ComparatorRules\<close>
  with their \<open>New...\<close>, \<open>Add...\<close> and \<open>Get\<close> are declared in other files of the repository.
  The spec makes each a mapping keyed by class identity (and operator token); \<open>Get\<close>
  of an absent key is Go's \<open>nil\<close>, and calling a nil func is a runtime fault.
\<close>

definition NewConstructorMap :: "'f ConstructorMap" where
  "NewConstructorMap = Map.empty"

definition AddConstructor :: "'f ConstructorMap \<Rightarrow> Class \<Rightarrow> 'f ConstructorFn \<Rightarrow> 'f ConstructorMap" where
  "AddConstructor csMap class fn = csMap(class \<mapsto> fn)"

definition NewComparatorRules :: "'f ComparatorRules" where
  "NewComparatorRules = Map.empty"

definition AddComparator :: "'f ComparatorRules \<Rightarrow> Class \<Rightarrow> Token \<Rightarrow> 'f OperatorFn \<Rightarrow> 'f ComparatorRules" where
  "AddComparator rules class tok fn = rules((class, tok) \<mapsto> fn)"

definition NewOperatorRules :: "'f OperatorRules" where
  "NewOperatorRules = Map.empty"

definition AddOperator :: "'f OperatorRules \<Rightarrow> Class \<Rightarrow> Token \<Rightarrow> 'f OperatorFn \<Rightarrow> 'f OperatorRules" where
  "AddOperator rules class tok fn = rules((class, tok) \<mapsto> fn)"

definition call_ConstructorFn :: "'f ConstructorFn option \<Rightarrow> 'f ConstructorFn" where
  "call_ConstructorFn fn obj =
     (case fn of None \<Rightarrow> Inl (Panic ''call of nil func'') | Some f \<Rightarrow> f obj)"

section \<open>The primitive kernel (literals.go)\<close>

subsection \<open>Get and Set of the literals\<close>

definition NewFunction :: "Class list \<Rightarrow> Class option \<Rightarrow> 'f fnHandler option \<Rightarrow> 'f Function" where
  "NewFunction Arguments Returns Handler =
     \<lparr>arguments = Arguments, returns = Returns, handler = Handler\<rparr>"

text \<open>The zero value of the struct \<open>Function\<close>: what a Go map lookup yields for an absent key.\<close>

definition Function_zero :: "'f Function" where
  "Function_zero = \<lparr>arguments = [], returns = None, handler = None\<rparr>"

definition StringLiteral_Get :: "'f host \<Rightarrow> string \<Rightarrow> string \<Rightarrow> 'f Object option" where
  "StringLiteral_Get h sl key =
     (let methods =
        [''lower'' \<mapsto> NewFunction [] (Some String_class)
            (Some (\<lambda>args proto. Some (Inr (Some (StringLiteral (strings_ToLower h sl)))))),
         ''upper'' \<mapsto> NewFunction [] (Some String_class)
            (Some (\<lambda>args proto. Some (Inr (Some (StringLiteral (strings_ToUpper h sl))))))]
      in Some (FunctionObject (case methods key of None \<Rightarrow> Function_zero | Some fn \<Rightarrow> fn)))"

text \<open>
  \<open>Get\<close> on a value; \<open>None\<close> is Go's \<open>nil\<close> Object. Only \<open>StringLiteral\<close> answers.
  \<open>Get\<close> and \<open>Set\<close> of \<open>Iterable\<close> and \<open>Error\<close> are defined in other files:
  they have no members here.
\<close>

fun Get :: "'f host \<Rightarrow> 'f ValueObject \<Rightarrow> string \<Rightarrow> 'f Object option" where
  "Get h (StringLiteral sl) key = StringLiteral_Get h sl key"
| "Get h v key = None"

fun Set :: "'f ValueObject \<Rightarrow> string \<Rightarrow> 'f ValueObject \<Rightarrow> 'f error option" where
  "Set NilLiteral key new = Some (CannotSetProperty key (Class_of (NilLiteral :: 'f ValueObject)))"
| "Set (BooleanLiteral b) key new = Some (CannotSetProperty key (Class_of (BooleanLiteral b :: 'f ValueObject)))"
| "Set (Iterable c items) key new = Some (CannotSetProperty key (Iterable_class c))"
| "Set (Error_value m) key new = Some (CannotSetProperty key Error_class)"
| "Set v key new = None"

text \<open>\<open>Get\<close> on a class (the static members): \<open>now\<close> of \<open>Date\<close> and \<open>DateTime\<close>.\<close>

fun Class_Get :: "Class \<Rightarrow> string \<Rightarrow> 'f Object option" where
  "Class_Get Date key =
     (if key = ''now''
      then Some (FunctionObject (NewFunction [] (Some Date)
             (Some (\<lambda>args proto. Some (Inr (Some DateLiteral))))))
      else None)"
| "Class_Get DateTime key =
     (if key = ''now''
      then Some (FunctionObject (NewFunction [] (Some DateTime)
             (Some (\<lambda>args proto. Some (Inr (Some DateTimeLiteral))))))
      else None)"
| "Class_Get c key = None"

subsection \<open>Constructors\<close>

definition NilLiteral_Constructors :: "'f ConstructorMap" where
  "NilLiteral_Constructors = NewConstructorMap"

definition Boolean_Constructors :: "'f ConstructorMap" where
  "Boolean_Constructors =
     (let csMap = NewConstructorMap;
          csMap = AddConstructor csMap Boolean
            (\<lambda>obj. case obj of BooleanLiteral b \<Rightarrow> Inr (BooleanLiteral b)
                    | _ \<Rightarrow> Inl (Panic ''interface conversion: not BooleanLiteral''))
      in csMap)"

definition String_Constructors :: "'f host \<Rightarrow> 'f ConstructorMap" where
  "String_Constructors h =
     (let numericConstructor = (\<lambda>obj. Inr (StringLiteral (Sprintf_v h (Value obj))));
          csMap = NewConstructorMap;
          csMap = AddConstructor csMap String_class (\<lambda>obj. Inr obj);
          csMap = AddConstructor csMap Number numericConstructor;
          csMap = AddConstructor csMap Double numericConstructor;
          csMap = AddConstructor csMap Integer numericConstructor;
          csMap = AddConstructor csMap Float numericConstructor;
          csMap = AddConstructor csMap Boolean numericConstructor
      in csMap)"

definition Number_Constructors :: "'f host \<Rightarrow> 'f ConstructorMap" where
  "Number_Constructors h =
     (let csMap = NewConstructorMap;
          csMap = AddConstructor csMap Number
            (\<lambda>obj. let val = Value obj;
                        val = (case val of HInt64 intNum \<Rightarrow> HFloat64 (float64_of_int64 h intNum)
                               | _ \<Rightarrow> val)
                    in case val of HFloat64 x \<Rightarrow> Inr (NumberLiteral x)
                       | _ \<Rightarrow> Inl (Panic ''interface conversion: not float64''));
          csMap = AddConstructor csMap Double
            (\<lambda>obj. case obj of DoubleLiteral x \<Rightarrow> Inr (NumberLiteral x)
                    | _ \<Rightarrow> Inl (Panic ''interface conversion: not DoubleLiteral''));
          csMap = AddConstructor csMap Integer
            (\<lambda>obj. case obj of IntegerLiteral i \<Rightarrow> Inr (NumberLiteral (float64_of_int64 h i))
                    | _ \<Rightarrow> Inl (Panic ''interface conversion: not IntegerLiteral''));
          csMap = AddConstructor csMap Float
            (\<lambda>obj. case obj of FloatLiteral x \<Rightarrow> Inr (NumberLiteral x)
                    | _ \<Rightarrow> Inl (Panic ''interface conversion: not FloatLiteral''))
      in csMap)"

definition Double_Constructors :: "'f host \<Rightarrow> 'f ConstructorMap" where
  "Double_Constructors h =
     (let csMap = NewConstructorMap;
          numericConstructor =
            (\<lambda>obj. case Value obj of
                      HFloat64 x \<Rightarrow>
                        Inr (DoubleLiteral (f_quo h (math_Ceil h (f_mul h x (f_hundred h))) (f_hundred h)))
                    | _ \<Rightarrow> Inl (Panic ''interface conversion: not float64''));
          csMap = AddConstructor csMap Number numericConstructor;
          csMap = AddConstructor csMap Double numericConstructor;
          csMap = AddConstructor csMap Integer numericConstructor;
          csMap = AddConstructor csMap Float numericConstructor
      in csMap)"

definition Float_Constructors :: "'f host \<Rightarrow> 'f ConstructorMap" where
  "Float_Constructors h =
     (let csMap = NewConstructorMap;
          csMap = AddConstructor csMap Number
            (\<lambda>obj. case Value obj of HFloat64 x \<Rightarrow> Inr (FloatLiteral x)
                    | _ \<Rightarrow> Inl (Panic ''interface conversion: not float64''));
          csMap = AddConstructor csMap Double
            (\<lambda>obj. case obj of DoubleLiteral x \<Rightarrow> Inr (FloatLiteral x)
                    | _ \<Rightarrow> Inl (Panic ''interface conversion: not DoubleLiteral''));
          csMap = AddConstructor csMap Integer
            (\<lambda>obj. case obj of IntegerLiteral i \<Rightarrow> Inr (FloatLiteral (float64_of_int64 h i))
                    | _ \<Rightarrow> Inl (Panic ''interface conversion: not IntegerLiteral''));
          csMap = AddConstructor csMap Float
            (\<lambda>obj. case obj of FloatLiteral x \<Rightarrow> Inr (FloatLiteral x)
                    | _ \<Rightarrow> Inl (Panic ''interface conversion: not FloatLiteral''))
      in csMap)"

definition Integer_Constructors :: "'f host \<Rightarrow> 'f ConstructorMap" where
  "Integer_Constructors h =
     (let csMap = NewConstructorMap;
          csMap = AddConstructor csMap Number
            (\<lambda>obj. case Value obj of HFloat64 x \<Rightarrow> Inr (IntegerLiteral (int64_of_float64 h x))
                    | _ \<Rightarrow> Inl (Panic ''interface conversion: not float64''));
          csMap = AddConstructor csMap Double
            (\<lambda>obj. case obj of DoubleLiteral x \<Rightarrow> Inr (IntegerLiteral (int64_of_float64 h x))
                    | _ \<Rightarrow> Inl (Panic ''interface conversion: not DoubleLiteral''));
          csMap = AddConstructor csMap Integer
            (\<lambda>obj. case obj of IntegerLiteral i \<Rightarrow> Inr (IntegerLiteral i)
                    | _ \<Rightarrow> Inl (Panic ''interface conversion: not IntegerLiteral''));
          csMap = AddConstructor csMap Float
            (\<lambda>obj. case obj of FloatLiteral x \<Rightarrow> Inr (IntegerLiteral (int64_of_float64 h x))
                    | _ \<Rightarrow> Inl (Panic ''interface conversion: not FloatLiteral''))
      in csMap)"

definition Date_Constructors :: "'f ConstructorMap" where
  "Date_Constructors = NewConstructorMap"

definition DateTime_Constructors :: "'f ConstructorMap" where
  "DateTime_Constructors = NewConstructorMap"

text \<open>
  \<open>Constructors()\<close> by class. The classes declared in other files have no
  constructors here.
\<close>

fun Constructors :: "'f host \<Rightarrow> Class \<Rightarrow> 'f ConstructorMap" where
  "Constructors h NilLiteral_class = NilLiteral_Constructors"
| "Constructors h Boolean = Boolean_Constructors"
| "Constructors h String_class = String_Constructors h"
| "Constructors h Number = Number_Constructors h"
| "Constructors h Double = Double_Constructors h"
| "Constructors h Float = Float_Constructors h"
| "Constructors h Integer = Integer_Constructors h"
| "Constructors h Date = Date_Constructors"
| "Constructors h DateTime = DateTime_Constructors"
| "Constructors h c = NewConstructorMap"

subsection \<open>Comparators and operators of the numeric classes\<close>

definition numComparePredicate :: "'f host \<Rightarrow> ('f \<Rightarrow> 'f \<Rightarrow> bool) \<Rightarrow> 'f OperatorFn" where
  "numComparePredicate h cb =
     (let numConstructor = call_ConstructorFn (Number_Constructors h Number)
      in (\<lambda>a b.
            case numConstructor a of
              Inl err \<Rightarrow> Inl err
            | Inr na \<Rightarrow>
               (case numConstructor b of
                  Inl err \<Rightarrow> Inl err
                | Inr nb \<Rightarrow>
                   (case (na, nb) of
                      (NumberLiteral x, NumberLiteral y) \<Rightarrow> Inr (BooleanLiteral (cb x y))
                    | _ \<Rightarrow> Inl (Panic ''interface conversion: not NumberLiteral'')))))"

definition addNumCompareMap :: "'f host \<Rightarrow> 'f ComparatorRules \<Rightarrow> Class \<Rightarrow> 'f ComparatorRules" where
  "addNumCompareMap h rules class =
     (let rules = AddComparator rules class EQUALS (numComparePredicate h (\<lambda>a b. f_eq h a b));
          rules = AddComparator rules class NOT_EQUALS (numComparePredicate h (\<lambda>a b. \<not> f_eq h a b));
          rules = AddComparator rules class LESS (numComparePredicate h (\<lambda>a b. f_lt h a b));
          rules = AddComparator rules class GREATER (numComparePredicate h (\<lambda>a b. f_lt h b a));
          rules = AddComparator rules class LESS_EQUAL (numComparePredicate h (\<lambda>a b. f_le h a b));
          rules = AddComparator rules class GREATER_EQUAL (numComparePredicate h (\<lambda>a b. f_le h b a))
      in rules)"

definition numCompareMap :: "'f host \<Rightarrow> 'f ComparatorRules" where
  "numCompareMap h =
     (let rules = NewComparatorRules;
          rules = addNumCompareMap h rules Number;
          rules = addNumCompareMap h rules Double;
          rules = addNumCompareMap h rules Integer;
          rules = addNumCompareMap h rules Float
      in rules)"

definition numOperatorPredicate :: "'f host \<Rightarrow> ('f \<Rightarrow> 'f \<Rightarrow> 'f error + 'f ValueObject) \<Rightarrow> 'f OperatorFn" where
  "numOperatorPredicate h cb =
     (let numConstructor = call_ConstructorFn (Number_Constructors h Number)
      in (\<lambda>a b.
            case numConstructor a of
              Inl err \<Rightarrow> Inl err
            | Inr na \<Rightarrow>
               (case numConstructor b of
                  Inl err \<Rightarrow> Inl err
                | Inr nb \<Rightarrow>
                   (case (na, nb) of
                      (NumberLiteral x, NumberLiteral y) \<Rightarrow> cb x y
                    | _ \<Rightarrow> Inl (Panic ''interface conversion: not NumberLiteral'')))))"

definition addNumOperatorMap ::
  "'f host \<Rightarrow> 'f OperatorRules \<Rightarrow> Class \<Rightarrow> 'f ConstructorFn option \<Rightarrow> 'f OperatorRules" where
  "addNumOperatorMap h rules class fn =
     (let rules = AddOperator rules class ADD
            (numOperatorPredicate h (\<lambda>a b. call_ConstructorFn fn (NumberLiteral (f_add h a b))));
          rules = AddOperator rules class SUB
            (numOperatorPredicate h (\<lambda>a b. call_ConstructorFn fn (NumberLiteral (f_sub h a b))));
          rules = AddOperator rules class MUL
            (numOperatorPredicate h (\<lambda>a b. call_ConstructorFn fn (NumberLiteral (f_mul h a b))));
          rules = AddOperator rules class PWR
            (numOperatorPredicate h (\<lambda>a b. call_ConstructorFn fn (NumberLiteral (math_Pow h a b))));
          rules = AddOperator rules class QUO
            (numOperatorPredicate h (\<lambda>a b. call_ConstructorFn fn (NumberLiteral (f_quo h a b))));
          rules = AddOperator rules class REM
            (numOperatorPredicate h (\<lambda>a b. call_ConstructorFn fn (NumberLiteral (math_Mod h a b))))
      in rules)"

definition numOperatorMap :: "'f host \<Rightarrow> 'f ConstructorFn option \<Rightarrow> 'f OperatorRules" where
  "numOperatorMap h fn =
     (let rules = NewOperatorRules;
          rules = addNumOperatorMap h rules Number fn;
          rules = addNumOperatorMap h rules Double fn;
          rules = addNumOperatorMap h rules Integer fn;
          rules = addNumOperatorMap h rules Float fn
      in rules)"

definition Boolean_ComparableRules :: "'f ComparatorRules" where
  "Boolean_ComparableRules =
     (let rules = NewComparatorRules;
          rules = AddComparator rules Boolean AND
            (\<lambda>a b. case (a, b) of
                      (BooleanLiteral x, BooleanLiteral y) \<Rightarrow> Inr (BooleanLiteral (x \<and> y))
                    | _ \<Rightarrow> Inl (Panic ''interface conversion: not BooleanLiteral''));
          rules = AddComparator rules Boolean OR
            (\<lambda>a b. case (a, b) of
                      (BooleanLiteral x, BooleanLiteral y) \<Rightarrow> Inr (BooleanLiteral (x \<or> y))
                    | _ \<Rightarrow> Inl (Panic ''interface conversion: not BooleanLiteral''))
      in rules)"

text \<open>
  \<open>ComparableRules()\<close> and \<open>OperatorRules()\<close> by class; \<open>None\<close> when the class does not
  have the method (it is not a \<open>ComparableClass\<close>, or not an \<open>OperableClass\<close>).
\<close>

fun ComparableRules :: "'f host \<Rightarrow> Class \<Rightarrow> 'f ComparatorRules option" where
  "ComparableRules h Boolean = Some Boolean_ComparableRules"
| "ComparableRules h Number = Some (numCompareMap h)"
| "ComparableRules h Double = Some (numCompareMap h)"
| "ComparableRules h Float = Some (numCompareMap h)"
| "ComparableRules h Integer = Some (numCompareMap h)"
| "ComparableRules h c = None"

fun OperatorRules :: "'f host \<Rightarrow> Class \<Rightarrow> 'f OperatorRules option" where
  "OperatorRules h Number = Some (numOperatorMap h (Number_Constructors h Number))"
| "OperatorRules h Double = Some (numOperatorMap h (Double_Constructors h Number))"
| "OperatorRules h Float = Some (numOperatorMap h (Float_Constructors h Number))"
| "OperatorRules h Integer = Some (numOperatorMap h (Integer_Constructors h Number))"
| "OperatorRules h c = None"

section \<open>Coercion and dispatch\<close>

text \<open>
  Modelled from the spec: \<open>Construct\<close>, \<open>ShouldConstruct\<close>, \<open>Operate\<close> and
  \<open>ShouldOperate\<close> are declared in other files of the repository. By the spec (4.D),
  \<open>Construct(target, v)\<close> looks up \<open>target.Constructors()[v.Class()]\<close> and fails with
  "cannot construct target from source" when there is none; \<open>ShouldConstruct(target, source)\<close>
  succeeds iff the same lookup would; \<open>Operate(op, a, b)\<close> looks up \<open>(b.Class(), op)\<close> in the
  rules of \<open>a.Class()\<close>, and \<open>ShouldOperate\<close> is its twin over classes. The comparison
  tokens are looked up in the comparator rules, the others in the operator rules.
\<close>

definition Construct :: "'f host \<Rightarrow> Class \<Rightarrow> 'f ValueObject \<Rightarrow> 'f error + 'f ValueObject" where
  "Construct h target v =
     (case Constructors h target (Class_of v) of
        None \<Rightarrow> Inl (CannotConstruct target (Class_of v))
      | Some fn \<Rightarrow> fn v)"

definition ShouldConstruct :: "'f host \<Rightarrow> Class \<Rightarrow> Class \<Rightarrow> 'f error option" where
  "ShouldConstruct h target source =
     (case Constructors h target source of
        None \<Rightarrow> Some (CannotConstruct target source)
      | Some fn \<Rightarrow> None)"

definition isComparator :: "Token \<Rightarrow> bool" where
  "isComparator op = (op \<in> {EQUALS, NOT_EQUALS, LESS, GREATER, LESS_EQUAL, GREATER_EQUAL, AND, OR})"

definition lookupRule :: "'f host \<Rightarrow> Token \<Rightarrow> Class \<Rightarrow> Class \<Rightarrow> 'f OperatorFn option" where
  "lookupRule h op a b =
     (case (if isComparator op then ComparableRules h a else OperatorRules h a) of
        None \<Rightarrow> None
      | Some rules \<Rightarrow> rules (b, op))"

definition Operate :: "'f host \<Rightarrow> Token \<Rightarrow> 'f ValueObject \<Rightarrow> 'f ValueObject \<Rightarrow> 'f error + 'f ValueObject" where
  "Operate h op a b =
     (case lookupRule h op (Class_of a) (Class_of b) of
        None \<Rightarrow> Inl (CannotOperate op (Class_of a) (Class_of b))
      | Some fn \<Rightarrow> fn a b)"

definition ShouldOperate :: "'f host \<Rightarrow> Token \<Rightarrow> Class \<Rightarrow> Class \<Rightarrow> 'f error option" where
  "ShouldOperate h op a b =
     (case lookupRule h op a b of
        None \<Rightarrow> Some (CannotOperate op a b)
      | Some fn \<Rightarrow> None)"

section \<open>Syntax trees\<close>

text \<open>
  The node types of package \<open>nodes\<close>, with the fields the engine reads. Expressions and
  type expressions are the type variables \<open>'e\<close> and \<open>'t\<close>: the engine hands them to
  collaborators and never looks inside. A \<open>Block\<close> is its list of \<open>Statements\<close>, a
  \<open>BlockStatement\<close> is its \<open>Init\<close>, a \<open>Selector\<close> is its list of \<open>Members\<close>.
\<close>

datatype 'e DeclarationStatement = DeclarationStatement string 'e

datatype 'e AssignmentExpression = AssignmentExpression "string list" Token 'e

datatype 'e Update =
    No_Update
  | Update_Expression 'e
  | Update_AssignmentExpression "'e AssignmentExpression"

datatype 'e Condition =
    ForCondition "'e DeclarationStatement option" 'e "'e Update"
  | RangeCondition string string 'e
  | Other_Condition

datatype 'e BlockStatement =
    Expression 'e
  | Declaration "'e DeclarationStatement"
  | Assignment "'e AssignmentExpression"
  | If "'e IfStatement"
  | WhileStatement 'e "'e BlockStatement list"
  | ForStatement "'e Condition" "'e BlockStatement list"
  | ContinueStatement
  | BreakStatement
  | SwitchBlock 'e "'e CaseBlock list"
  | GuardStatement 'e
  | ReturnStatement 'e
  | ThrowStatement 'e
  | Other_Statement
and 'e IfStatement =
    IfStatement 'e "'e BlockStatement list" "'e Alternate"
and 'e Alternate =
    No_Alternate
  | Alternate_IfStatement "'e IfStatement"
  | Alternate_Block "'e BlockStatement list"
and 'e CaseBlock =
    CaseBlock bool "'e option" "'e BlockStatement list"

type_synonym 'e Block = "'e BlockStatement list"

datatype 't Argument =
    ArgumentItem string 't
  | ArgumentObject "(string \<times> 't) list"

text \<open>A \<open>FunctionBlock\<close>: the \<open>Items\<close> of its \<open>Arguments\<close>, its \<open>ReturnType\<close>, its \<open>Body\<close>.\<close>

datatype ('e, 't) FunctionBlock =
  FunctionBlock "'t Argument list" "'t option" "'e Block"

section \<open>Symbol table and collaborators\<close>

record 'f SymbolTable =
  local :: "string \<rightharpoonup> 'f Object"
  immutable :: "string \<rightharpoonup> 'f Object"

text \<open>
  Modelled from the spec: \<open>Clone\<close> is declared in another file. It copies both
  maps, so that writes on the copy never reach the original; with tables passed as values
  the copy is the table itself.
\<close>

definition Clone :: "'f SymbolTable \<Rightarrow> 'f SymbolTable" where
  "Clone st = \<lparr>local = local st, immutable = immutable st\<rparr>"

text \<open>
  The methods of the table that the engine calls and that other files define are taken as
  parameters, together with the host: the evaluation and the validation of an expression,
  the lookup of a dotted selector, and the resolution of a type expression. Each is a
  function of the table, which it does not write.
\<close>

record ('f, 'e, 't) engine =
  kernel :: "'f host"
  ResolveValueObject :: "'f SymbolTable \<Rightarrow> 'e \<Rightarrow> 'f error + 'f ValueObject"
  ResolveExpression :: "'f SymbolTable \<Rightarrow> 'e \<Rightarrow> 'f error + 'f Object option"
  ValidateExpression :: "'f SymbolTable \<Rightarrow> 'e \<Rightarrow> 'f error + Class"
  ResolveSelector :: "'f SymbolTable \<Rightarrow> string list \<Rightarrow> 'f error + 'f Object option"
  ResolveTypeExpression :: "'f SymbolTable \<Rightarrow> 't \<Rightarrow> 'f error + Class"

text \<open>
  The type tests of the engine. A Go value passes \<open>.(ValueObject)\<close> when it has
  \<open>Class\<close>, \<open>Value\<close>, \<open>Set\<close> and \<open>Get\<close>, and \<open>.(Class)\<close> when it has \<open>ClassName\<close>,
  \<open>Constructors\<close> and \<open>Get\<close>; \<open>NilLiteral\<close> has all of them and passes both.
\<close>

fun as_ValueObject :: "'f Object option \<Rightarrow> 'f ValueObject option" where
  "as_ValueObject (Some (ValueObj v)) = Some v"
| "as_ValueObject (Some (ClassObject NilLiteral_class)) = Some NilLiteral"
| "as_ValueObject obj = None"

fun as_Class :: "'f Object option \<Rightarrow> Class option" where
  "as_Class (Some (ClassObject c)) = Some c"
| "as_Class (Some (ValueObj NilLiteral)) = Some NilLiteral_class"
| "as_Class obj = None"

definition Fields :: "(string \<times> Class) list \<Rightarrow> string \<rightharpoonup> Class" where
  "Fields fs = map_of fs"

section \<open>Functions\<close>

text \<open>
  Modelled from the spec: \<open>Construct\<close> on Go's \<open>nil\<close> value. The lookup of 4.D starts
  with \<open>v.Class()\<close>, a method call on a nil interface, which is a runtime fault.
\<close>

definition Construct_nilable :: "'f host \<Rightarrow> Class \<Rightarrow> 'f ValueObject option \<Rightarrow> 'f error + 'f ValueObject" where
  "Construct_nilable h target obj =
     (case obj of None \<Rightarrow> Inl (Panic ''nil pointer dereference'') | Some v \<Rightarrow> Construct h target v)"

fun ResolveMethodArguments_loop ::
  "'f host \<Rightarrow> Class list \<Rightarrow> 'f ValueObject list \<Rightarrow> 'f error + 'f ValueObject list" where
  "ResolveMethodArguments_loop h methodArgs [] = Inr []"
| "ResolveMethodArguments_loop h [] (arg # args) = Inl (Panic ''index out of range'')"
| "ResolveMethodArguments_loop h (argClass # methodArgs) (arg # args) =
     (if argClass \<noteq> GenericObject
      then (case Construct h argClass arg of
              Inl err \<Rightarrow> Inl err
            | Inr arg' \<Rightarrow>
               (case ResolveMethodArguments_loop h methodArgs args of
                  Inl err \<Rightarrow> Inl err
                | Inr args' \<Rightarrow> Inr (arg' # args')))
      else (case ResolveMethodArguments_loop h methodArgs args of
              Inl err \<Rightarrow> Inl err
            | Inr args' \<Rightarrow> Inr (arg # args')))"

definition ResolveMethodArguments ::
  "'f host \<Rightarrow> 'f Function \<Rightarrow> 'f ValueObject list \<Rightarrow> 'f error + 'f ValueObject list" where
  "ResolveMethodArguments h method args =
     (let methodArgs = arguments method
      in if length args \<noteq> length methodArgs
         then Inl (ArgumentCount (length methodArgs) (length args))
         else ResolveMethodArguments_loop h methodArgs args)"

fun ValidateMethodArguments_loop :: "'f host \<Rightarrow> Class list \<Rightarrow> Class list \<Rightarrow> 'f error option" where
  "ValidateMethodArguments_loop h methodArgs [] = None"
| "ValidateMethodArguments_loop h [] (arg # args) = Some (Panic ''index out of range'')"
| "ValidateMethodArguments_loop h (argClass # methodArgs) (arg # args) =
     (if argClass \<noteq> GenericObject
      then (case ShouldConstruct h argClass arg of
              Some err \<Rightarrow> Some err
            | None \<Rightarrow> ValidateMethodArguments_loop h methodArgs args)
      else ValidateMethodArguments_loop h methodArgs args)"

definition ValidateMethodArguments :: "'f host \<Rightarrow> 'f Function \<Rightarrow> Class list \<Rightarrow> 'f error option" where
  "ValidateMethodArguments h method args =
     (let methodArgs = arguments method
      in if length args \<noteq> length methodArgs
         then Some (ArgumentCount (length methodArgs) (length args))
         else ValidateMethodArguments_loop h methodArgs args)"

definition Call ::
  "'f host \<Rightarrow> 'f Function \<Rightarrow> 'f ValueObject list \<Rightarrow> 'f ValueObject option
     \<Rightarrow> ('f error + 'f ValueObject option) option" where
  "Call h fn args proto =
     (if length args \<noteq> length (arguments fn)
      then Some (Inl (ArgumentCount (length (arguments fn)) (length args)))
      else (case ResolveMethodArguments h fn args of
              Inl err \<Rightarrow> Some (Inl err)
            | Inr args' \<Rightarrow>
               (case handler fn of
                  None \<Rightarrow> Some (Inl (Panic ''call of nil func''))
                | Some fnHandler \<Rightarrow> fnHandler args' proto)))"

section \<open>Declarations and assignments\<close>

definition ResolveDeclarationStatement ::
  "('f, 'e, 't) engine \<Rightarrow> 'f SymbolTable \<Rightarrow> 'e DeclarationStatement \<Rightarrow> bool
     \<Rightarrow> 'f error option \<times> 'f SymbolTable" where
  "ResolveDeclarationStatement E st expr shouldEvaluate =
     (case expr of DeclarationStatement Name Init \<Rightarrow>
        if immutable st Name \<noteq> None
        then (Some (NodeError (''cannot reassign immutable variable '' @ Name)), st)
        else if local st Name \<noteq> None
        then (Some (NodeError (''cannot redeclare variable '' @ Name)), st)
        else if shouldEvaluate
        then (case ResolveValueObject E st Init of
                Inl err \<Rightarrow> (Some err, st)
              | Inr obj \<Rightarrow> (None, st\<lparr>local := (local st)(Name \<mapsto> ValueObj obj)\<rparr>))
        else (case ValidateExpression E st Init of
                Inl err \<Rightarrow> (Some err, st)
              | Inr obj \<Rightarrow> (None, st\<lparr>local := (local st)(Name \<mapsto> ClassObject obj)\<rparr>)))"

fun getEffectOperator :: "Token \<Rightarrow> Token" where
  "getEffectOperator ADD_ASSIGN = ADD"
| "getEffectOperator INC = ADD"
| "getEffectOperator SUB_ASSIGN = SUB"
| "getEffectOperator DEC = SUB"
| "getEffectOperator MUL_ASSIGN = MUL"
| "getEffectOperator PWR_ASSIGN = PWR"
| "getEffectOperator QUO_ASSIGN = QUO"
| "getEffectOperator REM_ASSIGN = REM"
| "getEffectOperator tok = Token_zero"

text \<open>
  The closure \<open>eval\<close> of \<open>ResolveAssignmentExpression\<close>, which walks the rest of the
  selector from the object bound to its first name; \<open>object\<close> is the new value it
  captures. \<open>members[0]\<close> on an empty slice is an index out of range.
\<close>

fun eval :: "'f host \<Rightarrow> 'f ValueObject \<Rightarrow> 'f Object option \<Rightarrow> string list \<Rightarrow> 'f error option" where
  "eval h object current members =
     (case as_ValueObject current of
        Some valueObj \<Rightarrow>
          (case members of
             [] \<Rightarrow> Some (Panic ''index out of range [0] with length 0'')
           | [m] \<Rightarrow> Set valueObj m object
           | m # ms \<Rightarrow> eval h object (Get h valueObj m) ms)
      | None \<Rightarrow> Some (NodeError ''cannot assign to non-value object''))"

definition ResolveAssignmentExpression ::
  "('f, 'e, 't) engine \<Rightarrow> 'f SymbolTable \<Rightarrow> 'e AssignmentExpression
     \<Rightarrow> 'f error option \<times> 'f SymbolTable" where
  "ResolveAssignmentExpression E st expr =
     (case expr of AssignmentExpression Members Operator Init \<Rightarrow>
        (case Members of
           [] \<Rightarrow> (Some (Panic ''index out of range [0] with length 0''), st)
         | name # rest \<Rightarrow>
            if immutable st name \<noteq> None
            then (Some (NodeError (''cannot reassign immutable variable '' @ name)), st)
            else
              let parentObject = local st name in
              (case ResolveSelector E st Members of
                 Inl err \<Rightarrow> (Some err, st)
               | Inr originalObject \<Rightarrow>
                  (case as_ValueObject originalObject of
                     Some object \<Rightarrow>
                       (case ResolveValueObject E st Init of
                          Inl err \<Rightarrow> (Some err, st)
                        | Inr operand \<Rightarrow>
                           (case (if Operator = ASSIGN
                                  then Construct (kernel E) (Class_of object) operand
                                  else (case Operate (kernel E) (getEffectOperator Operator) object operand of
                                          Inl err \<Rightarrow> Inl (NodeError_of err)
                                        | Inr object' \<Rightarrow> Inr object')) of
                              Inl err \<Rightarrow> (Some err, st)
                            | Inr object' \<Rightarrow>
                               (case eval (kernel E) object' parentObject rest of
                                  Some err \<Rightarrow> (Some err, st)
                                | None \<Rightarrow> (None, st\<lparr>local := (local st)(name := parentObject)\<rparr>))))
                   | None \<Rightarrow> (Some (NodeError ''cannot assign to non-value object''), st)))))"

text \<open>
  The loop of \<open>ValidateAssignmentExpression\<close> over the members after the first. A type
  switch on Go's \<open>nil\<close> takes the default branch, whose \<open>object.Get\<close> is a method call on
  a nil interface.
\<close>

fun ValidateAssignmentExpression_walk ::
  "'f host \<Rightarrow> 'f Object option \<Rightarrow> string list \<Rightarrow> 'f error + 'f Object option" where
  "ValidateAssignmentExpression_walk h currentObject [] = Inr currentObject"
| "ValidateAssignmentExpression_walk h currentObject (member # members) =
     (case currentObject of
        Some (ClassObject (Type fs)) \<Rightarrow>
          (case Fields fs member of
             Some field \<Rightarrow> ValidateAssignmentExpression_walk h (Some (ClassObject field)) members
           | None \<Rightarrow>
              (case (Class_Get (Type fs) member :: 'f Object option) of
                 Some staticObject \<Rightarrow> ValidateAssignmentExpression_walk h (Some staticObject) members
               | None \<Rightarrow> Inl (NodeError (ClassName (Type fs) @ '' does not have field '' @ member))))
      | None \<Rightarrow> Inl (Panic ''nil pointer dereference'')
      | Some object \<Rightarrow>
          (case as_ValueObject (Some object) of
             Some v \<Rightarrow>
               (case Get h v member of
                  None \<Rightarrow> Inl (NodeError (ClassName (Class_of v) @ '' has no member '' @ member))
                | Some obj \<Rightarrow> ValidateAssignmentExpression_walk h (Some obj) members)
           | None \<Rightarrow>
               (case (case object of ClassObject c \<Rightarrow> Class_Get c member | _ \<Rightarrow> None) of
                  None \<Rightarrow> Inl (NodeError (''%T has no member '' @ member))
                | Some obj \<Rightarrow> ValidateAssignmentExpression_walk h (Some obj) members)))"

definition ValidateAssignmentExpression ::
  "('f, 'e, 't) engine \<Rightarrow> 'f SymbolTable \<Rightarrow> 'e AssignmentExpression
     \<Rightarrow> 'f error option \<times> 'f SymbolTable" where
  "ValidateAssignmentExpression E st expr =
     (case expr of AssignmentExpression Members Operator Init \<Rightarrow>
        (case Members of
           [] \<Rightarrow> (Some (Panic ''index out of range [0] with length 0''), st)
         | name # rest \<Rightarrow>
            if immutable st name \<noteq> None
            then (Some (NodeError (''cannot reassign immutable variable '' @ name)), st)
            else
              (case ValidateAssignmentExpression_walk (kernel E) (local st name) rest of
                 Inl err \<Rightarrow> (Some err, st)
               | Inr currentObject \<Rightarrow>
                  (case as_Class currentObject of
                     Some class \<Rightarrow>
                       (case ValidateExpression E st Init of
                          Inl err \<Rightarrow> (Some err, st)
                        | Inr operand \<Rightarrow>
                           if Operator = ASSIGN
                           then (case ShouldConstruct (kernel E) operand class of
                                   Some err \<Rightarrow> (Some (NodeError_of err), st)
                                 | None \<Rightarrow> (None, st))
                           else (case ShouldOperate (kernel E) (getEffectOperator Operator) class operand of
                                   Some err \<Rightarrow> (Some (NodeError_of err), st)
                                 | None \<Rightarrow> (None, st)))
                   | None \<Rightarrow> (Some (NodeError ''cannot assign to non-value object''), st)))))"

section \<open>Evaluation\<close>

text \<open>
  What a statement or block hands back: \<open>None\<close> when it does not return; otherwise the
  table as it left it, with either the error or the return object (\<open>None\<close> is Go's
  \<open>nil\<close>, no value returned).

  The statement functions of the source call each other in a cycle, and a loop may run
  forever. Each of them takes the function for \<open>st.ResolveBlockStatement\<close> as its
  argument \<open>rbs\<close>; \<open>ResolveBlockStatement\<close> closes the cycle below with a budget.
\<close>

type_synonym 'f outcome = "(('f error + 'f ValueObject option) \<times> 'f SymbolTable) option"

fun ResolveBlock ::
  "('f SymbolTable \<Rightarrow> 'e BlockStatement \<Rightarrow> 'f outcome) \<Rightarrow> 'f SymbolTable \<Rightarrow> 'e Block \<Rightarrow> 'f outcome" where
  "ResolveBlock rbs st [] = Some (Inr None, st)"
| "ResolveBlock rbs st (stmt # stmts) =
     (case rbs st stmt of
        None \<Rightarrow> None
      | Some (Inl err, st') \<Rightarrow> Some (Inl err, st')
      | Some (Inr (Some returnObject), st') \<Rightarrow> Some (Inr (Some returnObject), st')
      | Some (Inr None, st') \<Rightarrow> ResolveBlock rbs st' stmts)"

fun ResolveIfStatement ::
  "('f, 'e, 't) engine \<Rightarrow> ('f SymbolTable \<Rightarrow> 'e BlockStatement \<Rightarrow> 'f outcome)
     \<Rightarrow> 'f SymbolTable \<Rightarrow> 'e IfStatement \<Rightarrow> 'f outcome" where
  "ResolveIfStatement E rbs st (IfStatement Condition Body Alternate) =
     (case ResolveValueObject E st Condition of
        Inl err \<Rightarrow> Some (Inl err, st)
      | Inr condition \<Rightarrow>
         (case condition of
            BooleanLiteral conditionResult \<Rightarrow>
              if conditionResult then ResolveBlock rbs st Body
              else (case Alternate of
                      Alternate_IfStatement alt \<Rightarrow> ResolveIfStatement E rbs st alt
                    | Alternate_Block alt \<Rightarrow> ResolveBlock rbs st alt
                    | No_Alternate \<Rightarrow> Some (Inr None, st))
          | _ \<Rightarrow> Some (Inl (NodeError ''if condition must be a boolean''), st)))"

text \<open>
  One pass over the statements of a loop body, which the source writes out in each of its
  three loops: \<open>continue\<close> and \<open>break\<close> are acted on as direct children, anything else
  goes to \<open>ResolveBlockStatement\<close>.
\<close>

datatype 'f flow =
    Failed "'f error"
  | Returned "'f ValueObject"
  | Completed
  | Continued
  | Broke

fun loopBody ::
  "('f SymbolTable \<Rightarrow> 'e BlockStatement \<Rightarrow> 'f outcome) \<Rightarrow> 'f SymbolTable \<Rightarrow> 'e Block
     \<Rightarrow> ('f flow \<times> 'f SymbolTable) option" where
  "loopBody rbs st [] = Some (Completed, st)"
| "loopBody rbs st (stmt # stmts) =
     (case stmt of
        ContinueStatement \<Rightarrow> Some (Continued, st)
      | BreakStatement \<Rightarrow> Some (Broke, st)
      | _ \<Rightarrow>
         (case rbs st stmt of
            None \<Rightarrow> None
          | Some (Inl err, st') \<Rightarrow> Some (Failed err, st')
          | Some (Inr (Some returnObject), st') \<Rightarrow> Some (Returned returnObject, st')
          | Some (Inr None, st') \<Rightarrow> loopBody rbs st' stmts))"

text \<open>The loops take a bound on the number of passes; \<open>None\<close> when it is used up.\<close>

fun ResolveWhileStatement ::
  "('f, 'e, 't) engine \<Rightarrow> ('f SymbolTable \<Rightarrow> 'e BlockStatement \<Rightarrow> 'f outcome) \<Rightarrow> nat
     \<Rightarrow> 'f SymbolTable \<Rightarrow> 'e \<Rightarrow> 'e Block \<Rightarrow> 'f outcome" where
  "ResolveWhileStatement E rbs 0 st Condition Body = None"
| "ResolveWhileStatement E rbs (Suc k) st Condition Body =
     (case ResolveValueObject E st Condition of
        Inl err \<Rightarrow> Some (Inl err, st)
      | Inr condition \<Rightarrow>
         (case condition of
            BooleanLiteral conditionResult \<Rightarrow>
              if \<not> conditionResult then Some (Inr None, st)
              else (case loopBody rbs st Body of
                      None \<Rightarrow> None
                    | Some (Failed err, st') \<Rightarrow> Some (Inl err, st')
                    | Some (Returned returnObject, st') \<Rightarrow> Some (Inr (Some returnObject), st')
                    | Some (Broke, st') \<Rightarrow> Some (Inr None, st')
                    | Some (_, st') \<Rightarrow> ResolveWhileStatement E rbs k st' Condition Body)
          | _ \<Rightarrow> Some (Inl (NodeError ''while condition must be a boolean''), st)))"

fun ResolveForStatement_forLoop ::
  "('f, 'e, 't) engine \<Rightarrow> ('f SymbolTable \<Rightarrow> 'e BlockStatement \<Rightarrow> 'f outcome) \<Rightarrow> nat
     \<Rightarrow> 'f SymbolTable \<Rightarrow> 'e \<Rightarrow> 'e Update \<Rightarrow> 'e Block \<Rightarrow> ('f error + 'f ValueObject option) option" where
  "ResolveForStatement_forLoop E rbs 0 scopeTable Condition Update Body = None"
| "ResolveForStatement_forLoop E rbs (Suc k) scopeTable Condition Update Body =
     (case ResolveValueObject E scopeTable Condition of
        Inl err \<Rightarrow> Some (Inl err)
      | Inr condition \<Rightarrow>
         (case condition of
            BooleanLiteral conditionResult \<Rightarrow>
              if \<not> conditionResult then Some (Inr None)
              else (case loopBody rbs scopeTable Body of
                      None \<Rightarrow> None
                    | Some (Failed err, st') \<Rightarrow> Some (Inl err)
                    | Some (Returned returnObject, st') \<Rightarrow> Some (Inr (Some returnObject))
                    | Some (Broke, st') \<Rightarrow> Some (Inr None)
                    | Some (Continued, st') \<Rightarrow>
                        ResolveForStatement_forLoop E rbs k st' Condition Update Body
                    | Some (Completed, st') \<Rightarrow>
                       (case Update of
                          Update_Expression updateExpr \<Rightarrow>
                            (case ResolveValueObject E st' updateExpr of
                               Inl err \<Rightarrow> Some (Inl err)
                             | Inr obj \<Rightarrow> ResolveForStatement_forLoop E rbs k st' Condition Update Body)
                        | Update_AssignmentExpression updateExpr \<Rightarrow>
                            (case ResolveAssignmentExpression E st' updateExpr of
                               (Some err, st'') \<Rightarrow> Some (Inl err)
                             | (None, st'') \<Rightarrow> ResolveForStatement_forLoop E rbs k st'' Condition Update Body)
                        | No_Update \<Rightarrow> ResolveForStatement_forLoop E rbs k st' Condition Update Body))
          | _ \<Rightarrow> Some (Inl (NodeError ''for condition must be a boolean''))))"

fun ResolveForStatement_rangeLoop ::
  "('f SymbolTable \<Rightarrow> 'e BlockStatement \<Rightarrow> 'f outcome) \<Rightarrow> 'f SymbolTable \<Rightarrow> string \<Rightarrow> string
     \<Rightarrow> nat \<Rightarrow> 'f ValueObject list \<Rightarrow> 'e Block \<Rightarrow> ('f error + 'f ValueObject option) option" where
  "ResolveForStatement_rangeLoop rbs scopeTable Index Val idx [] Body = Some (Inr None)"
| "ResolveForStatement_rangeLoop rbs scopeTable Index Val idx (item # items) Body =
     (let scopeTable = scopeTable\<lparr>local := (local scopeTable)(Index \<mapsto> ValueObj (IntegerLiteral (of_nat idx)))\<rparr>;
          scopeTable = scopeTable\<lparr>local := (local scopeTable)(Val \<mapsto> ValueObj item)\<rparr>
      in case loopBody rbs scopeTable Body of
           None \<Rightarrow> None
         | Some (Failed err, st') \<Rightarrow> Some (Inl err)
         | Some (Returned returnObject, st') \<Rightarrow> Some (Inr (Some returnObject))
         | Some (Broke, st') \<Rightarrow> Some (Inr None)
         | Some (_, st') \<Rightarrow> ResolveForStatement_rangeLoop rbs st' Index Val (Suc idx) items Body)"

text \<open>
  The loop runs on \<open>scopeTable\<close>, a clone, so the caller's table comes back as it was.
\<close>

definition ResolveForStatement ::
  "('f, 'e, 't) engine \<Rightarrow> ('f SymbolTable \<Rightarrow> 'e BlockStatement \<Rightarrow> 'f outcome) \<Rightarrow> nat
     \<Rightarrow> 'f SymbolTable \<Rightarrow> 'e Condition \<Rightarrow> 'e Block \<Rightarrow> 'f outcome" where
  "ResolveForStatement E rbs k st Condition Body =
     (let scopeTable = Clone st
      in map_option (\<lambda>r. (r, st))
          (case Condition of
             ForCondition Init cond Update \<Rightarrow>
               (case (case Init of
                        Some decl \<Rightarrow> ResolveDeclarationStatement E scopeTable decl True
                      | None \<Rightarrow> (None, scopeTable)) of
                  (Some err, scopeTable) \<Rightarrow> Some (Inl err)
                | (None, scopeTable) \<Rightarrow> ResolveForStatement_forLoop E rbs k scopeTable cond Update Body)
           | RangeCondition Index Val Target \<Rightarrow>
               (case ResolveValueObject E st Target of
                  Inl err \<Rightarrow> Some (Inl err)
                | Inr targetObject \<Rightarrow>
                   (case targetObject of
                      Iterable ParentType Items \<Rightarrow>
                        ResolveForStatement_rangeLoop rbs scopeTable Index Val 0 Items Body
                    | _ \<Rightarrow> Some (Inl NotIterableError)))
           | Other_Condition \<Rightarrow> Some (Inr None)))"

text \<open>
  The two loops of \<open>ResolveSwitchBlock\<close>. The first hands back either an early end (an
  error or a returned object) or, at the end of the cases, the flag \<open>resolved\<close>.
\<close>

fun ResolveSwitchBlock_cases ::
  "('f, 'e, 't) engine \<Rightarrow> ('f SymbolTable \<Rightarrow> 'e BlockStatement \<Rightarrow> 'f outcome) \<Rightarrow> 'f ValueObject
     \<Rightarrow> 'f SymbolTable \<Rightarrow> 'e CaseBlock list \<Rightarrow> bool
     \<Rightarrow> ((('f error + 'f ValueObject) + bool) \<times> 'f SymbolTable) option" where
  "ResolveSwitchBlock_cases E rbs target st [] resolved = Some (Inr resolved, st)"
| "ResolveSwitchBlock_cases E rbs target st (CaseBlock IsDefault Condition Body # cases) resolved =
     (if \<not> IsDefault
      then (case Condition of
              None \<Rightarrow> Some (Inl (Inl (Panic ''nil pointer dereference'')), st)
            | Some cond \<Rightarrow>
               (case ResolveValueObject E st cond of
                  Inl err \<Rightarrow> Some (Inl (Inl err), st)
                | Inr caseCondition \<Rightarrow>
                   (case Operate (kernel E) EQUALS target caseCondition of
                      Inl err \<Rightarrow> Some (Inl (Inl (NodeError_of err)), st)
                    | Inr evaluated \<Rightarrow>
                       if evaluated = BooleanLiteral True
                       then (case ResolveBlock rbs st Body of
                               None \<Rightarrow> None
                             | Some (Inl err, st') \<Rightarrow> Some (Inl (Inl err), st')
                             | Some (Inr (Some returnObject), st') \<Rightarrow> Some (Inl (Inr returnObject), st')
                             | Some (Inr None, st') \<Rightarrow>
                                 ResolveSwitchBlock_cases E rbs target st' cases True)
                       else ResolveSwitchBlock_cases E rbs target st cases resolved)))
      else ResolveSwitchBlock_cases E rbs target st cases resolved)"

fun ResolveSwitchBlock_defaults ::
  "('f SymbolTable \<Rightarrow> 'e BlockStatement \<Rightarrow> 'f outcome) \<Rightarrow> 'f SymbolTable \<Rightarrow> 'e CaseBlock list
     \<Rightarrow> 'f outcome" where
  "ResolveSwitchBlock_defaults rbs st [] = Some (Inr None, st)"
| "ResolveSwitchBlock_defaults rbs st (CaseBlock IsDefault Condition Body # cases) =
     (if IsDefault
      then (case ResolveBlock rbs st Body of
              None \<Rightarrow> None
            | Some (Inl err, st') \<Rightarrow> Some (Inl err, st')
            | Some (Inr (Some returnObject), st') \<Rightarrow> Some (Inr (Some returnObject), st')
            | Some (Inr None, st') \<Rightarrow> ResolveSwitchBlock_defaults rbs st' cases)
      else ResolveSwitchBlock_defaults rbs st cases)"

definition ResolveSwitchBlock ::
  "('f, 'e, 't) engine \<Rightarrow> ('f SymbolTable \<Rightarrow> 'e BlockStatement \<Rightarrow> 'f outcome)
     \<Rightarrow> 'f SymbolTable \<Rightarrow> 'e \<Rightarrow> 'e CaseBlock list \<Rightarrow> 'f outcome" where
  "ResolveSwitchBlock E rbs st Target Statements =
     (case ResolveValueObject E st Target of
        Inl err \<Rightarrow> Some (Inl err, st)
      | Inr target \<Rightarrow>
         if OperatorRules (kernel E) (Class_of target) \<noteq> None
         then (case ResolveSwitchBlock_cases E rbs target st Statements False of
                 None \<Rightarrow> None
               | Some (Inl (Inl err), st') \<Rightarrow> Some (Inl err, st')
               | Some (Inl (Inr returnObject), st') \<Rightarrow> Some (Inr (Some returnObject), st')
               | Some (Inr resolved, st') \<Rightarrow>
                   if \<not> resolved then ResolveSwitchBlock_defaults rbs st' Statements
                   else Some (Inr None, st'))
         else Some (Inl InoperableSwitchTargetError, st))"

definition guardStatementHandler ::
  "('f, 'e, 't) engine \<Rightarrow> 'f SymbolTable \<Rightarrow> 'f error + ('f ValueObject \<times> 'f Function)" where
  "guardStatementHandler E st =
     (case as_ValueObject (immutable st ''self'') of
        Some protoObject \<Rightarrow>
          (case Get (kernel E) protoObject ''guard'' of
             Some (FunctionObject guardFn) \<Rightarrow> Inr (protoObject, guardFn)
           | _ \<Rightarrow> Inl (NodeError ''function has no guard directive''))
      | None \<Rightarrow> Inl (NodeError ''function has no guard directive''))"

definition ResolveGuardStatement ::
  "('f, 'e, 't) engine \<Rightarrow> 'f SymbolTable \<Rightarrow> 'e \<Rightarrow> 'f outcome" where
  "ResolveGuardStatement E st Init =
     (case guardStatementHandler E st of
        Inl err \<Rightarrow> Some (Inl err, st)
      | Inr (protoObject, guardFn) \<Rightarrow>
         (case ResolveValueObject E st Init of
            Inl err \<Rightarrow> Some (Inl err, st)
          | Inr obj \<Rightarrow>
             (case Call (kernel E) guardFn [obj] (Some protoObject) of
                None \<Rightarrow> None
              | Some (Inl err) \<Rightarrow> Some (Inl err, st)
              | Some (Inr r) \<Rightarrow> Some (Inr None, st))))"

text \<open>
  \<open>ResolveBlockStatement E n\<close> evaluates a statement within the budget \<open>n\<close>, which bounds
  how deep statements nest and how many passes each loop makes. The cases for
  \<open>continue\<close> and \<open>break\<close> are commented out in the source, so both reach the default.
\<close>

fun ResolveBlockStatement ::
  "('f, 'e, 't) engine \<Rightarrow> nat \<Rightarrow> 'f SymbolTable \<Rightarrow> 'e BlockStatement \<Rightarrow> 'f outcome" where
  "ResolveBlockStatement E 0 st expr = None"
| "ResolveBlockStatement E (Suc n) st expr =
     (case expr of
        Expression e \<Rightarrow>
          (case ResolveExpression E st e of
             Inl err \<Rightarrow> Some (Inl err, st)
           | Inr obj \<Rightarrow> Some (Inr None, st))
      | Declaration decl \<Rightarrow>
          (case ResolveDeclarationStatement E st decl True of
             (Some err, st') \<Rightarrow> Some (Inl err, st')
           | (None, st') \<Rightarrow> Some (Inr None, st'))
      | Assignment assign \<Rightarrow>
          (case ResolveAssignmentExpression E st assign of
             (Some err, st') \<Rightarrow> Some (Inl err, st')
           | (None, st') \<Rightarrow> Some (Inr None, st'))
      | If ifStmt \<Rightarrow> ResolveIfStatement E (\<lambda>s x. ResolveBlockStatement E n s x) st ifStmt
      | WhileStatement Condition Body \<Rightarrow>
          ResolveWhileStatement E (\<lambda>s x. ResolveBlockStatement E n s x) n st Condition Body
      | ForStatement Condition Body \<Rightarrow>
          ResolveForStatement E (\<lambda>s x. ResolveBlockStatement E n s x) n st Condition Body
      | SwitchBlock Target Statements \<Rightarrow>
          ResolveSwitchBlock E (\<lambda>s x. ResolveBlockStatement E n s x) st Target Statements
      | GuardStatement Init \<Rightarrow> ResolveGuardStatement E st Init
      | ReturnStatement Init \<Rightarrow>
          (case ResolveValueObject E st Init of
             Inl err \<Rightarrow> Some (Inl err, st)
           | Inr returnObject \<Rightarrow> Some (Inr (Some returnObject), st))
      | ThrowStatement Init \<Rightarrow>
          (case ResolveValueObject E st Init of
             Inl err \<Rightarrow> Some (Inl err, st)
           | Inr returnObject \<Rightarrow>
              (case returnObject of
                 Error_value m \<Rightarrow> Some (Inl (Thrown returnObject), st)
               | _ \<Rightarrow> Some (Inl (NodeError ''throw statement must be an error''), st)))
      | _ \<Rightarrow> Some (Inl (NodeError ''unknown block statement type''), st))"

section \<open>Validation\<close>

fun ValidateSwitchBlock_cases ::
  "('f, 'e, 't) engine \<Rightarrow> 'f SymbolTable \<Rightarrow> 'f ComparatorRules \<Rightarrow> 'e CaseBlock list \<Rightarrow> bool
     \<Rightarrow> 'f error option" where
  "ValidateSwitchBlock_cases E st rules [] hasDefaultBlock = None"
| "ValidateSwitchBlock_cases E st rules (CaseBlock IsDefault Condition Body # cases) hasDefaultBlock =
     (if IsDefault
      then (if hasDefaultBlock
            then Some (NodeError ''switch statement can only have one default block'')
            else ValidateSwitchBlock_cases E st rules cases True)
      else (case Condition of
              None \<Rightarrow> Some (Panic ''nil pointer dereference'')
            | Some cond \<Rightarrow>
               (case ValidateExpression E st cond of
                  Inl err \<Rightarrow> Some err
                | Inr caseCondition \<Rightarrow>
                   if rules (caseCondition, EQUALS) = None
                   then Some (NodeError
                     ''switch statement case condition must be comparable to switch target'')
                   else ValidateSwitchBlock_cases E st rules cases hasDefaultBlock)))"

definition ValidateSwitchBlock ::
  "('f, 'e, 't) engine \<Rightarrow> 'f SymbolTable \<Rightarrow> 'e \<Rightarrow> 'e CaseBlock list
     \<Rightarrow> 'f error option \<times> 'f SymbolTable" where
  "ValidateSwitchBlock E st Target Statements =
     (case ValidateExpression E st Target of
        Inl err \<Rightarrow> (Some err, st)
      | Inr target \<Rightarrow>
         (case ComparableRules (kernel E) target of
            Some rules \<Rightarrow> (ValidateSwitchBlock_cases E st rules Statements False, st)
          | None \<Rightarrow> (Some InoperableSwitchTargetError, st)))"

definition ValidateGuardStatement ::
  "('f, 'e, 't) engine \<Rightarrow> 'f SymbolTable \<Rightarrow> 'e \<Rightarrow> 'f error option \<times> 'f SymbolTable" where
  "ValidateGuardStatement E st Init =
     (case guardStatementHandler E st of
        Inl err \<Rightarrow> (Some err, st)
      | Inr (protoObject, guardFn) \<Rightarrow>
         (case ValidateExpression E st Init of
            Inl err \<Rightarrow> (Some err, st)
          | Inr class \<Rightarrow>
             (case ValidateMethodArguments (kernel E) guardFn [class] of
                Some err \<Rightarrow> (Some (NodeError_of err), st)
              | None \<Rightarrow> (None, st))))"

text \<open>
  The part of \<open>ValidateForStatement\<close> before the body: the clone of the table with the
  loop's own bindings, or the error. The range branch binds the index name to the value
  \<open>IntegerLiteral(0)\<close> and the value name to the \<open>ParentType\<close>.
\<close>

definition ValidateForStatement_head ::
  "('f, 'e, 't) engine \<Rightarrow> 'f SymbolTable \<Rightarrow> 'e Condition \<Rightarrow> 'f error + 'f SymbolTable" where
  "ValidateForStatement_head E st Condition =
     (let scopeTable = Clone st
      in case Condition of
           ForCondition Init cond Update \<Rightarrow>
             (case (case Init of
                      Some decl \<Rightarrow> ResolveDeclarationStatement E scopeTable decl False
                    | None \<Rightarrow> (None, scopeTable)) of
                (Some err, scopeTable) \<Rightarrow> Inl err
              | (None, scopeTable) \<Rightarrow>
                 (case ValidateExpression E scopeTable cond of
                    Inl err \<Rightarrow> Inl err
                  | Inr condition \<Rightarrow>
                     if condition \<noteq> Boolean
                     then Inl (NodeError ''for statement condition must be a boolean'')
                     else (case Update of
                             Update_Expression updateExpr \<Rightarrow>
                               (case ValidateExpression E scopeTable updateExpr of
                                  Inl err \<Rightarrow> Inl err
                                | Inr c \<Rightarrow> Inr scopeTable)
                           | Update_AssignmentExpression updateExpr \<Rightarrow>
                               (case ValidateAssignmentExpression E scopeTable updateExpr of
                                  (Some err, scopeTable) \<Rightarrow> Inl err
                                | (None, scopeTable) \<Rightarrow> Inr scopeTable)
                           | No_Update \<Rightarrow> Inr scopeTable)))
         | RangeCondition Index Val Target \<Rightarrow>
             (case ValidateExpression E scopeTable Target of
                Inl err \<Rightarrow> Inl err
              | Inr targetObject \<Rightarrow>
                 (case targetObject of
                    Iterable_class ParentType \<Rightarrow>
                      (let scopeTable = scopeTable\<lparr>local := (local scopeTable)(Index \<mapsto> ValueObj (IntegerLiteral 0))\<rparr>;
                           scopeTable = scopeTable\<lparr>local := (local scopeTable)(Val \<mapsto> ClassObject ParentType)\<rparr>
                       in Inr scopeTable)
                  | _ \<Rightarrow> Inl NotIterableError))
         | Other_Condition \<Rightarrow> Inl (NodeError ''invalid for condition''))"

text \<open>
  The validators of statements and blocks. In \<open>ValidateBlockStatement\<close> the cases for
  \<open>continue\<close> and \<open>break\<close> are commented out, so both reach the default.
\<close>

function (sequential) ValidateBlockStatement ::
    "('f, 'e, 't) engine \<Rightarrow> 'f SymbolTable \<Rightarrow> 'e BlockStatement \<Rightarrow> 'f error option \<times> 'f SymbolTable"
  and ValidateIfStatement ::
    "('f, 'e, 't) engine \<Rightarrow> 'f SymbolTable \<Rightarrow> 'e IfStatement \<Rightarrow> 'f error option \<times> 'f SymbolTable"
  and ValidateWhileStatement ::
    "('f, 'e, 't) engine \<Rightarrow> 'f SymbolTable \<Rightarrow> 'e \<Rightarrow> 'e Block \<Rightarrow> 'f error option \<times> 'f SymbolTable"
  and ValidateForStatement ::
    "('f, 'e, 't) engine \<Rightarrow> 'f SymbolTable \<Rightarrow> 'e Condition \<Rightarrow> 'e Block \<Rightarrow> 'f error option \<times> 'f SymbolTable"
  and ValidateBlock ::
    "('f, 'e, 't) engine \<Rightarrow> 'f SymbolTable \<Rightarrow> 'e Block \<Rightarrow> 'f error option \<times> 'f SymbolTable"
  and ValidateLoopBlock ::
    "('f, 'e, 't) engine \<Rightarrow> 'f SymbolTable \<Rightarrow> 'e Block \<Rightarrow> 'f error option \<times> 'f SymbolTable"
where
  "ValidateBlockStatement E st (Expression e) =
     (case ValidateExpression E st e of Inl err \<Rightarrow> (Some err, st) | Inr c \<Rightarrow> (None, st))"
| "ValidateBlockStatement E st (Declaration decl) = ResolveDeclarationStatement E st decl False"
| "ValidateBlockStatement E st (Assignment assign) = ValidateAssignmentExpression E st assign"
| "ValidateBlockStatement E st (If ifStmt) = ValidateIfStatement E st ifStmt"
| "ValidateBlockStatement E st (WhileStatement Condition Body) =
     ValidateWhileStatement E st Condition Body"
| "ValidateBlockStatement E st (ForStatement Condition Body) =
     ValidateForStatement E st Condition Body"
| "ValidateBlockStatement E st (SwitchBlock Target Statements) =
     ValidateSwitchBlock E st Target Statements"
| "ValidateBlockStatement E st (GuardStatement Init) = ValidateGuardStatement E st Init"
| "ValidateBlockStatement E st (ReturnStatement Init) =
     (case ValidateExpression E st Init of Inl err \<Rightarrow> (Some err, st) | Inr c \<Rightarrow> (None, st))"
| "ValidateBlockStatement E st (ThrowStatement Init) =
     (case ValidateExpression E st Init of
        Inl err \<Rightarrow> (Some err, st)
      | Inr returnObject \<Rightarrow>
         if returnObject \<noteq> Error_class
         then (Some (NodeError ''throw statement must be an error''), st)
         else (None, st))"
| "ValidateBlockStatement E st ContinueStatement =
     (Some (NodeError ''unknown block statement type''), st)"
| "ValidateBlockStatement E st BreakStatement =
     (Some (NodeError ''unknown block statement type''), st)"
| "ValidateBlockStatement E st Other_Statement =
     (Some (NodeError ''unknown block statement type''), st)"
| "ValidateIfStatement E st (IfStatement Condition Body Alternate) =
     (case ValidateExpression E st Condition of
        Inl err \<Rightarrow> (Some err, st)
      | Inr condition \<Rightarrow>
         if condition \<noteq> Boolean
         then (Some (NodeError ''if condition must be a boolean''), st)
         else (case ValidateBlock E st Body of
                 (Some err, st') \<Rightarrow> (Some err, st')
               | (None, st') \<Rightarrow>
                  (case Alternate of
                     Alternate_IfStatement alt \<Rightarrow> ValidateIfStatement E st' alt
                   | Alternate_Block alt \<Rightarrow> ValidateBlock E st' alt
                   | No_Alternate \<Rightarrow> (None, st'))))"
| "ValidateWhileStatement E st Condition Body =
     (case ValidateExpression E st Condition of
        Inl err \<Rightarrow> (Some err, st)
      | Inr condition \<Rightarrow>
         if condition \<noteq> Boolean
         then (Some (NodeError ''if condition must be a boolean''), st)
         else ValidateLoopBlock E st Body)"
| "ValidateForStatement E st Condition Body =
     (case ValidateForStatement_head E st Condition of
        Inl err \<Rightarrow> (Some err, st)
      | Inr scopeTable \<Rightarrow> (fst (ValidateLoopBlock E scopeTable Body), st))"
| "ValidateBlock E st [] = (None, st)"
| "ValidateBlock E st (stmt # stmts) =
     (if stmt = ContinueStatement
      then (Some (NodeError ''continue statement outside loop''), st)
      else if stmt = BreakStatement
      then (Some (NodeError ''break statement outside loop''), st)
      else (case ValidateBlockStatement E st stmt of
              (Some err, st') \<Rightarrow> (Some err, st')
            | (None, st') \<Rightarrow> ValidateBlock E st' stmts))"
| "ValidateLoopBlock E st [] = (None, st)"
| "ValidateLoopBlock E st (stmt # stmts) =
     (case ValidateBlockStatement E st stmt of
        (Some err, st') \<Rightarrow> (Some err, st')
      | (None, st') \<Rightarrow> ValidateLoopBlock E st' stmts)"
  by pat_completeness auto

termination
  by (relation "measure (\<lambda>x. case x of
        Inl (Inl (E, st, stmt)) \<Rightarrow> 2 * size stmt
      | Inl (Inr (Inl (E, st, ifStmt))) \<Rightarrow> 2 * size ifStmt
      | Inl (Inr (Inr (E, st, c, body))) \<Rightarrow> 2 * size_list size body + 1
      | Inr (Inl (E, st, c, body)) \<Rightarrow> 2 * size_list size body + 1
      | Inr (Inr (Inl (E, st, body))) \<Rightarrow> 2 * size_list size body
      | Inr (Inr (Inr (E, st, body))) \<Rightarrow> 2 * size_list size body)")
     simp_all

section \<open>Return coverage\<close>

function (sequential) ValidateBlockReturns ::
    "('f, 'e, 't) engine \<Rightarrow> 'f SymbolTable \<Rightarrow> 'e Block \<Rightarrow> Class \<Rightarrow> 'f error + bool"
  and ValidateIfStatementReturns ::
    "('f, 'e, 't) engine \<Rightarrow> 'f SymbolTable \<Rightarrow> 'e IfStatement \<Rightarrow> Class \<Rightarrow> 'f error + bool"
  and ValidateWhileStatementReturns ::
    "('f, 'e, 't) engine \<Rightarrow> 'f SymbolTable \<Rightarrow> 'e Block \<Rightarrow> Class \<Rightarrow> 'f error + bool"
  and ValidateForStatementReturns ::
    "('f, 'e, 't) engine \<Rightarrow> 'f SymbolTable \<Rightarrow> 'e Block \<Rightarrow> Class \<Rightarrow> 'f error + bool"
  and ValidateSwitchBlockReturns ::
    "('f, 'e, 't) engine \<Rightarrow> 'f SymbolTable \<Rightarrow> 'e CaseBlock list \<Rightarrow> Class \<Rightarrow> 'f error + bool"
  and ValidateSwitchBlockReturns_cases ::
    "('f, 'e, 't) engine \<Rightarrow> 'f SymbolTable \<Rightarrow> 'e CaseBlock list \<Rightarrow> Class \<Rightarrow> 'f error + bool"
  and ValidateSwitchBlockReturns_default ::
    "('f, 'e, 't) engine \<Rightarrow> 'f SymbolTable \<Rightarrow> 'e CaseBlock list \<Rightarrow> Class \<Rightarrow> 'f error + bool"
where
  "ValidateBlockReturns E st [] shouldReturn = Inr False"
| "ValidateBlockReturns E st (stmt # stmts) shouldReturn =
     (case (case stmt of
              ReturnStatement Init \<Rightarrow>
                (case ValidateExpression E st Init of
                   Inl err \<Rightarrow> Inl err
                 | Inr returnClass \<Rightarrow>
                    (case ShouldConstruct (kernel E) shouldReturn returnClass of
                       Some err \<Rightarrow> Inl (NodeError_of err)
                     | None \<Rightarrow> Inr True))
            | ThrowStatement Init \<Rightarrow>
                (case ValidateExpression E st Init of
                   Inl err \<Rightarrow> Inl err
                 | Inr returnObject \<Rightarrow>
                    if returnObject \<noteq> Error_class
                    then Inl (NodeError (''throw type '' @ ClassName returnObject @ '' is not an error''))
                    else Inr True)
            | If ifStmt \<Rightarrow> ValidateIfStatementReturns E st ifStmt shouldReturn
            | WhileStatement Condition Body \<Rightarrow> ValidateWhileStatementReturns E st Body shouldReturn
            | ForStatement Condition Body \<Rightarrow> ValidateForStatementReturns E st Body shouldReturn
            | SwitchBlock Target Statements \<Rightarrow> ValidateSwitchBlockReturns E st Statements shouldReturn
            | _ \<Rightarrow> Inr False) of
        Inl err \<Rightarrow> Inl err
      | Inr doesReturn \<Rightarrow>
         if doesReturn then Inr True else ValidateBlockReturns E st stmts shouldReturn)"
| "ValidateIfStatementReturns E st (IfStatement Condition Body Alternate) shouldReturn =
     (case ValidateBlockReturns E st Body shouldReturn of
        Inl err \<Rightarrow> Inl err
      | Inr blockPassed \<Rightarrow>
         if blockPassed
         then (case Alternate of
                 Alternate_IfStatement alt \<Rightarrow> ValidateIfStatementReturns E st alt shouldReturn
               | Alternate_Block alt \<Rightarrow> ValidateBlockReturns E st alt shouldReturn
               | No_Alternate \<Rightarrow> Inr False)
         else Inr False)"
| "ValidateWhileStatementReturns E st Body shouldReturn = ValidateBlockReturns E st Body shouldReturn"
| "ValidateForStatementReturns E st Body shouldReturn = ValidateBlockReturns E st Body shouldReturn"
| "ValidateSwitchBlockReturns E st Statements shouldReturn =
     (case ValidateSwitchBlockReturns_cases E st Statements shouldReturn of
        Inl err \<Rightarrow> Inl err
      | Inr allPassed \<Rightarrow>
         if allPassed then ValidateSwitchBlockReturns_default E st Statements shouldReturn
         else Inr False)"
| "ValidateSwitchBlockReturns_cases E st [] shouldReturn = Inr True"
| "ValidateSwitchBlockReturns_cases E st (CaseBlock IsDefault Condition Body # cases) shouldReturn =
     (if \<not> IsDefault
      then (case ValidateBlockReturns E st Body shouldReturn of
              Inl err \<Rightarrow> Inl err
            | Inr blockPassed \<Rightarrow>
               if \<not> blockPassed then Inr False
               else ValidateSwitchBlockReturns_cases E st cases shouldReturn)
      else ValidateSwitchBlockReturns_cases E st cases shouldReturn)"
| "ValidateSwitchBlockReturns_default E st [] shouldReturn = Inr False"
| "ValidateSwitchBlockReturns_default E st (CaseBlock IsDefault Condition Body # cases) shouldReturn =
     (if IsDefault then ValidateBlockReturns E st Body shouldReturn
      else ValidateSwitchBlockReturns_default E st cases shouldReturn)"
  by pat_completeness auto

termination
  by (relation "measure (\<lambda>x. case x of
        Inl (Inl (E, st, body, r)) \<Rightarrow> 2 * size_list size body
      | Inl (Inr (Inl (E, st, ifStmt, r))) \<Rightarrow> 2 * size ifStmt
      | Inl (Inr (Inr (E, st, body, r))) \<Rightarrow> 2 * size_list size body + 1
      | Inr (Inl (Inl (E, st, body, r))) \<Rightarrow> 2 * size_list size body + 1
      | Inr (Inl (Inr (E, st, cases, r))) \<Rightarrow> 2 * size_list size cases + 1
      | Inr (Inr (Inl (E, st, cases, r))) \<Rightarrow> 2 * size_list size cases
      | Inr (Inr (Inr (E, st, cases, r))) \<Rightarrow> 2 * size_list size cases)")
     simp_all

section \<open>Function binding\<close>

text \<open>
  The fields of a destructured argument become the \<open>fields\<close> of a \<open>Type\<close>; a later
  entry for the same key is put in front, where the lookup finds it first.
\<close>

fun ResolveArgumentList_fields ::
  "('f, 'e, 't) engine \<Rightarrow> 'f SymbolTable \<Rightarrow> (string \<times> 't) list \<Rightarrow> (string \<times> Class) list
     \<Rightarrow> ('f error + (string \<times> Class) list) \<times> 'f SymbolTable" where
  "ResolveArgumentList_fields E st [] typedFields = (Inr typedFields, st)"
| "ResolveArgumentList_fields E st ((Key, Init) # items) typedFields =
     (case ResolveTypeExpression E st Init of
        Inl err \<Rightarrow> (Inl err, st)
      | Inr obj \<Rightarrow>
         ResolveArgumentList_fields E (st\<lparr>local := (local st)(Key \<mapsto> ClassObject obj)\<rparr>) items
           ((Key, obj) # typedFields))"

fun ResolveArgumentList ::
  "('f, 'e, 't) engine \<Rightarrow> 'f SymbolTable \<Rightarrow> 't Argument list
     \<Rightarrow> ('f error + Class list) \<times> 'f SymbolTable" where
  "ResolveArgumentList E st [] = (Inr [], st)"
| "ResolveArgumentList E st (item # items) =
     (case item of
        ArgumentItem Key Init \<Rightarrow>
          (case ResolveTypeExpression E st Init of
             Inl err \<Rightarrow> (Inl err, st)
           | Inr obj \<Rightarrow>
              (case ResolveArgumentList E (st\<lparr>local := (local st)(Key \<mapsto> ClassObject obj)\<rparr>) items of
                 (Inl err, st') \<Rightarrow> (Inl err, st')
               | (Inr args, st') \<Rightarrow> (Inr (obj # args), st')))
      | ArgumentObject Items \<Rightarrow>
          (case ResolveArgumentList_fields E st Items [] of
             (Inl err, st') \<Rightarrow> (Inl err, st')
           | (Inr typedFields, st') \<Rightarrow>
              (case ResolveArgumentList E st' items of
                 (Inl err, st'') \<Rightarrow> (Inl err, st'')
               | (Inr args, st'') \<Rightarrow> (Inr (Type typedFields # args), st''))))"

text \<open>
  \<open>ApplyArgumentList\<close> reads \<open>args[idx]\<close> at the position of the item; here the list
  \<open>args\<close> is what remains from that position on.
\<close>

fun ApplyArgumentList_fields ::
  "'f host \<Rightarrow> 'f SymbolTable \<Rightarrow> (string \<times> 't) list \<Rightarrow> 'f ValueObject list
     \<Rightarrow> 'f error option \<times> 'f SymbolTable" where
  "ApplyArgumentList_fields h st [] args = (None, st)"
| "ApplyArgumentList_fields h st ((Key, Init) # items) args =
     (case args of
        [] \<Rightarrow> (Some (Panic ''index out of range''), st)
      | arg # rest \<Rightarrow>
         (case Get h arg Key of
            None \<Rightarrow> (Some (NodeError (''object does not have property '' @ Key)), st)
          | Some propObject \<Rightarrow>
             ApplyArgumentList_fields h (st\<lparr>local := (local st)(Key \<mapsto> propObject)\<rparr>) items args))"

fun ApplyArgumentList ::
  "'f host \<Rightarrow> 'f SymbolTable \<Rightarrow> 't Argument list \<Rightarrow> 'f ValueObject list
     \<Rightarrow> 'f error option \<times> 'f SymbolTable" where
  "ApplyArgumentList h st [] args = (None, st)"
| "ApplyArgumentList h st (item # items) args =
     (case item of
        ArgumentItem Key Init \<Rightarrow>
          (case args of
             [] \<Rightarrow> (Some (Panic ''index out of range''), st)
           | arg # rest \<Rightarrow>
              ApplyArgumentList h (st\<lparr>local := (local st)(Key \<mapsto> ValueObj arg)\<rparr>) items rest)
      | ArgumentObject Items \<Rightarrow>
          (case ApplyArgumentList_fields h st Items args of
             (Some err, st') \<Rightarrow> (Some err, st')
           | (None, st') \<Rightarrow> ApplyArgumentList h st' items (drop 1 args)))"

text \<open>
  The closure that \<open>ResolveFunctionBlock\<close> stores as the handler. It captures the
  defining table \<open>st\<close>, the node and the function being built, of which it reads
  \<open>returns\<close>; \<open>n\<close> is the budget of each run of the body. The table it clones at
  each call is the defining table as it was when the function was compiled; in Go the
  closure holds the maps themselves, so a name bound in the defining scope afterwards is
  seen by later calls.
\<close>

definition ResolveFunctionBlock_handler ::
  "('f, 'e, 't) engine \<Rightarrow> nat \<Rightarrow> 'f SymbolTable \<Rightarrow> ('e, 't) FunctionBlock \<Rightarrow> Class option
     \<Rightarrow> 'f fnHandler" where
  "ResolveFunctionBlock_handler E n st node fn_returns =
     (\<lambda>args proto.
        case node of FunctionBlock Arguments ReturnType Body \<Rightarrow>
          let execTable = Clone st in
          (case ApplyArgumentList (kernel E) execTable Arguments args of
             (Some err, execTable) \<Rightarrow> Some (Inl err)
           | (None, execTable) \<Rightarrow>
              let execTable = (case proto of
                                 Some p \<Rightarrow> execTable\<lparr>immutable := (immutable execTable)(''self'' \<mapsto> ValueObj p)\<rparr>
                               | None \<Rightarrow> execTable) in
              (case ResolveBlock (\<lambda>s x. ResolveBlockStatement E n s x) execTable Body of
                 None \<Rightarrow> None
               | Some (Inl err, execTable) \<Rightarrow> Some (Inl err)
               | Some (Inr obj, execTable) \<Rightarrow>
                  (case fn_returns of
                     Some r \<Rightarrow>
                       (case Construct_nilable (kernel E) r obj of
                          Inl err \<Rightarrow> Some (Inl err)
                        | Inr v \<Rightarrow> Some (Inr (Some v)))
                   | None \<Rightarrow> Some (Inr None)))))"

definition ResolveFunctionBlock ::
  "('f, 'e, 't) engine \<Rightarrow> nat \<Rightarrow> 'f SymbolTable \<Rightarrow> ('e, 't) FunctionBlock \<Rightarrow> 'f ValueObject option
     \<Rightarrow> 'f error + 'f Function" where
  "ResolveFunctionBlock E n st node proto =
     (case node of FunctionBlock Arguments ReturnType Body \<Rightarrow>
        let scopeTable = Clone st;
            fn = \<lparr>arguments = [], returns = None, handler = None\<rparr>
        in
        (case (if Arguments \<noteq> []
               then (case ResolveArgumentList E scopeTable Arguments of
                       (Inl err, scopeTable) \<Rightarrow> Inl err
                     | (Inr args, scopeTable) \<Rightarrow> Inr (fn\<lparr>arguments := args\<rparr>, scopeTable))
               else Inr (fn, scopeTable)) of
           Inl err \<Rightarrow> Inl err
         | Inr (fn, scopeTable) \<Rightarrow>
            let scopeTable = (case proto of
                                Some p \<Rightarrow> scopeTable\<lparr>immutable := (immutable scopeTable)(''self'' \<mapsto> ValueObj p)\<rparr>
                              | None \<Rightarrow> scopeTable) in
            (case ValidateBlock E scopeTable Body of
               (Some err, scopeTable) \<Rightarrow> Inl err
             | (None, scopeTable) \<Rightarrow>
                (case (case ReturnType of
                         Some returnType \<Rightarrow>
                           (case ResolveTypeExpression E scopeTable returnType of
                              Inl err \<Rightarrow> Inl err
                            | Inr r \<Rightarrow>
                               (case ValidateBlockReturns E scopeTable Body r of
                                  Inl err \<Rightarrow> Inl err
                                | Inr passes \<Rightarrow>
                                   if \<not> passes then Inl (NodeError ''expected return'')
                                   else Inr (fn\<lparr>returns := Some r\<rparr>)))
                       | None \<Rightarrow> Inr fn) of
                   Inl err \<Rightarrow> Inl err
                 | Inr fn \<Rightarrow>
                    Inr (fn\<lparr>handler := Some (ResolveFunctionBlock_handler E n st node (returns fn))\<rparr>)))))"


section \<open>Reading the claims\<close>

text \<open>
  The words of the claims about the numeric classes, as definitions of their own: which
  classes are numeric, the underlying numeric of a value widened to \<open>float64\<close>, and what
  each arithmetic and comparison token computes on two \<open>float64\<close>s.
\<close>

definition numericClass :: "Class \<Rightarrow> bool" where
  "numericClass c = (c \<in> {Number, Double, Integer, Float})"

definition arithmeticOp :: "Token \<Rightarrow> bool" where
  "arithmeticOp op = (op \<in> {ADD, SUB, MUL, PWR, QUO, REM})"

definition comparisonOp :: "Token \<Rightarrow> bool" where
  "comparisonOp op = (op \<in> {EQUALS, NOT_EQUALS, LESS, GREATER, LESS_EQUAL, GREATER_EQUAL})"

fun widened :: "'f host \<Rightarrow> 'f ValueObject \<Rightarrow> 'f option" where
  "widened h (NumberLiteral x) = Some x"
| "widened h (DoubleLiteral x) = Some x"
| "widened h (FloatLiteral x) = Some x"
| "widened h (IntegerLiteral i) = Some (float64_of_int64 h i)"
| "widened h v = None"

fun arithmetic :: "'f host \<Rightarrow> Token \<Rightarrow> 'f \<Rightarrow> 'f \<Rightarrow> 'f" where
  "arithmetic h ADD a b = f_add h a b"
| "arithmetic h SUB a b = f_sub h a b"
| "arithmetic h MUL a b = f_mul h a b"
| "arithmetic h PWR a b = math_Pow h a b"
| "arithmetic h QUO a b = f_quo h a b"
| "arithmetic h REM a b = math_Mod h a b"
| "arithmetic h op a b = a"

fun comparison :: "'f host \<Rightarrow> Token \<Rightarrow> 'f \<Rightarrow> 'f \<Rightarrow> bool" where
  "comparison h EQUALS a b = f_eq h a b"
| "comparison h NOT_EQUALS a b = (\<not> f_eq h a b)"
| "comparison h LESS a b = f_lt h a b"
| "comparison h GREATER a b = f_lt h b a"
| "comparison h LESS_EQUAL a b = f_le h a b"
| "comparison h GREATER_EQUAL a b = f_le h b a"
| "comparison h op a b = False"

fun fromNumber :: "'f host \<Rightarrow> Class \<Rightarrow> 'f \<Rightarrow> 'f ValueObject" where
  "fromNumber h Integer x = IntegerLiteral (int64_of_float64 h x)"
| "fromNumber h Double x =
     DoubleLiteral (f_quo h (math_Ceil h (f_mul h x (f_hundred h))) (f_hundred h))"
| "fromNumber h Float x = FloatLiteral x"
| "fromNumber h c x = NumberLiteral x"

definition quantise :: "'f host \<Rightarrow> 'f \<Rightarrow> 'f" where
  "quantise h x = f_quo h (math_Ceil h (f_mul h x (f_hundred h))) (f_hundred h)"

text \<open>
  The words of the claim about the switch: a case matches in a table when it is not the
  default and its condition evaluates to a value that \<open>Operate(==, target, cond)\<close> finds
  equal; it is passed over when it is the default, or its condition evaluates and the
  comparison gives anything but true.
\<close>

definition caseMatches ::
  "('f, 'e, 't) engine \<Rightarrow> 'f ValueObject \<Rightarrow> 'f SymbolTable \<Rightarrow> 'e CaseBlock \<Rightarrow> bool" where
  "caseMatches E target st c =
     (case c of CaseBlock IsDefault Condition Body \<Rightarrow>
        \<not> IsDefault \<and>
        (case Condition of
           None \<Rightarrow> False
         | Some cond \<Rightarrow>
            (case ResolveValueObject E st cond of
               Inl err \<Rightarrow> False
             | Inr v \<Rightarrow> Operate (kernel E) EQUALS target v = Inr (BooleanLiteral True))))"

definition casePassedOver ::
  "('f, 'e, 't) engine \<Rightarrow> 'f ValueObject \<Rightarrow> 'f SymbolTable \<Rightarrow> 'e CaseBlock \<Rightarrow> bool" where
  "casePassedOver E target st c =
     (case c of CaseBlock IsDefault Condition Body \<Rightarrow>
        IsDefault \<or>
        (case Condition of
           None \<Rightarrow> False
         | Some cond \<Rightarrow>
            (case ResolveValueObject E st cond of
               Inl err \<Rightarrow> False
             | Inr v \<Rightarrow>
                (case Operate (kernel E) EQUALS target v of
                   Inl err \<Rightarrow> False
                 | Inr evaluated \<Rightarrow> evaluated \<noteq> BooleanLiteral True))))"

text \<open>
  The test of a case fails when the case is not the default and its condition is missing,
  does not evaluate, or cannot be compared with the target; \<open>caseFault\<close> is the error
  it fails with.
\<close>

definition caseFault ::
  "('f, 'e, 't) engine \<Rightarrow> 'f ValueObject \<Rightarrow> 'f SymbolTable \<Rightarrow> 'e CaseBlock \<Rightarrow> 'f error option" where
  "caseFault E target st c =
     (case c of CaseBlock IsDefault Condition Body \<Rightarrow>
        if IsDefault then None
        else (case Condition of
                None \<Rightarrow> Some (Panic ''nil pointer dereference'')
              | Some cond \<Rightarrow>
                 (case ResolveValueObject E st cond of
                    Inl err \<Rightarrow> Some err
                  | Inr v \<Rightarrow>
                     (case Operate (kernel E) EQUALS target v of
                        Inl err \<Rightarrow> Some (NodeError_of err)
                      | Inr evaluated \<Rightarrow> None))))"

text \<open>
  The amended claim about the switch, as a function of its own: going through the cases in
  order, each case is tested in the table as the bodies run so far have left it; a case
  whose test fails ends the run with the error; a case that matches has its body
  executed, which ends the run when it fails or yields a return object; every other case,
  the default among them, is passed over. No default body is run here.
\<close>

fun runEqualCases ::
  "('f, 'e, 't) engine \<Rightarrow> ('f SymbolTable \<Rightarrow> 'e BlockStatement \<Rightarrow> 'f outcome) \<Rightarrow> 'f ValueObject
     \<Rightarrow> 'f SymbolTable \<Rightarrow> 'e CaseBlock list \<Rightarrow> 'f outcome" where
  "runEqualCases E rbs target st [] = Some (Inr None, st)"
| "runEqualCases E rbs target st (c # cases) =
     (case caseFault E target st c of
        Some err \<Rightarrow> Some (Inl err, st)
      | None \<Rightarrow>
         if caseMatches E target st c
         then (case c of CaseBlock IsDefault Condition Body \<Rightarrow>
                 (case ResolveBlock rbs st Body of
                    None \<Rightarrow> None
                  | Some (Inl err, st') \<Rightarrow> Some (Inl err, st')
                  | Some (Inr (Some returnObject), st') \<Rightarrow> Some (Inr (Some returnObject), st')
                  | Some (Inr None, st') \<Rightarrow> runEqualCases E rbs target st' cases))
         else runEqualCases E rbs target st cases)"

text \<open>
  What the case loop of the source hands back, without its flag \<open>resolved\<close>: the
  shape in which it is compared with \<open>runEqualCases\<close>.
\<close>

definition forget_resolved ::
  "((('f error + 'f ValueObject) + bool) \<times> 'f SymbolTable) \<Rightarrow> ('f error + 'f ValueObject option) \<times> 'f SymbolTable" where
  "forget_resolved r =
     (case r of
        (Inl (Inl err), st') \<Rightarrow> (Inl err, st')
      | (Inl (Inr returnObject), st') \<Rightarrow> (Inr (Some returnObject), st')
      | (Inr resolved, st') \<Rightarrow> (Inr None, st'))"

section \<open>A host with exact arithmetic\<close>

text \<open>
  One instance of the host record, for evaluating the definitions at concrete inputs:
  \<open>float64\<close> read as the reals with exact arithmetic (no rounding, no infinities or NaN),
  ASCII case mapping, and decimal text for integers.
\<close>

fun decimal :: "nat \<Rightarrow> string" where
  "decimal n =
     (if n < 10 then [char_of (48 + n)]
      else decimal (n div 10) @ [char_of (48 + n mod 10)])"

definition decimal_int :: "int \<Rightarrow> string" where
  "decimal_int i = (if i < 0 then CHR ''-'' # decimal (nat (- i)) else decimal (nat i))"

definition truncate :: "real \<Rightarrow> int" where
  "truncate x = (if x < 0 then \<lceil>x\<rceil> else \<lfloor>x\<rfloor>)"

definition ascii_lower :: "char \<Rightarrow> char" where
  "ascii_lower c =
     (let n = (of_char c :: nat) in if 65 \<le> n \<and> n \<le> 90 then char_of (n + 32) else c)"

definition ascii_upper :: "char \<Rightarrow> char" where
  "ascii_upper c =
     (let n = (of_char c :: nat) in if 97 \<le> n \<and> n \<le> 122 then char_of (n - 32) else c)"

definition exact_host :: "real host" where
  "exact_host =
     \<lparr> f_add = (\<lambda>a b. a + b),
       f_sub = (\<lambda>a b. a - b),
       f_mul = (\<lambda>a b. a * b),
       f_quo = (\<lambda>a b. a / b),
       math_Pow = (\<lambda>a b. a powr b),
       math_Mod = (\<lambda>a b. a - b * of_int (truncate (a / b))),
       math_Ceil = (\<lambda>x. of_int \<lceil>x\<rceil>),
       f_eq = (\<lambda>a b. a = b),
       f_lt = (\<lambda>a b. a < b),
       f_le = (\<lambda>a b. a \<le> b),
       f_hundred = 100,
       float64_of_int64 = (\<lambda>i. of_int (sint i)),
       int64_of_float64 = (\<lambda>x. word_of_int (truncate x)),
       Sprintf_v = (\<lambda>d. case d of
                        HNil \<Rightarrow> ''<nil>''
                      | HBool b \<Rightarrow> (if b then ''true'' else ''false'')
                      | HString s \<Rightarrow> s
                      | HInt64 i \<Rightarrow> decimal_int (sint i)
                      | HFloat64 x \<Rightarrow> decimal_int (truncate x)),
       strings_ToLower = map ascii_lower,
       strings_ToUpper = map ascii_upper \<rparr>"

section \<open>An engine over literal expressions\<close>

text \<open>
  Modelled from the spec: \<open>ResolveSelector\<close> is declared in another file. By
  4.C it takes \<open>local[n0]\<close> and follows \<open>Get\<close>/\<open>Fields\<close> along the remaining members,
  which is the walk that \<open>ValidateAssignmentExpression\<close> writes out.
\<close>

definition ResolveSelector_spec ::
  "'f host \<Rightarrow> 'f SymbolTable \<Rightarrow> string list \<Rightarrow> 'f error + 'f Object option" where
  "ResolveSelector_spec h st members =
     (case members of
        [] \<Rightarrow> Inl (Panic ''index out of range [0] with length 0'')
      | name # rest \<Rightarrow> ValidateAssignmentExpression_walk h (local st name) rest)"

text \<open>
  One instance of the collaborators, for evaluating the engine at concrete inputs: every
  expression is a literal value, which evaluates to itself and validates to its class, and
  every type expression is the class it names.
\<close>

definition literal_engine :: "(real, real ValueObject, Class) engine" where
  "literal_engine =
     \<lparr> kernel = exact_host,
       ResolveValueObject = (\<lambda>st e. Inr e),
       ResolveExpression = (\<lambda>st e. Inr (Some (ValueObj e))),
       ValidateExpression = (\<lambda>st e. Inr (Class_of e)),
       ResolveSelector = ResolveSelector_spec exact_host,
       ResolveTypeExpression = (\<lambda>st t. Inr t) \<rparr>"

text \<open>
  A second instance, in which an expression is a literal or a name: a name evaluates to
  the value it is bound to in \<open>local\<close> and validates to the class it is bound to.
\<close>

datatype 'f name_expr =
    Literal "'f ValueObject"
  | Name string

definition name_engine :: "(real, real name_expr, Class) engine" where
  "name_engine =
     \<lparr> kernel = exact_host,
       ResolveValueObject =
         (\<lambda>st e. case e of
                    Literal v \<Rightarrow> Inr v
                  | Name x \<Rightarrow>
                     (case as_ValueObject (local st x) of
                        Some v \<Rightarrow> Inr v
                      | None \<Rightarrow> Inl (NodeError (''undefined: '' @ x)))),
       ResolveExpression =
         (\<lambda>st e. case e of
                    Literal v \<Rightarrow> Inr (Some (ValueObj v))
                  | Name x \<Rightarrow> Inr (local st x)),
       ValidateExpression =
         (\<lambda>st e. case e of
                    Literal v \<Rightarrow> Inr (Class_of v)
                  | Name x \<Rightarrow>
                     (case local st x of
                        Some (ClassObject c) \<Rightarrow> Inr c
                      | Some (ValueObj v) \<Rightarrow> Inr (Class_of v)
                      | _ \<Rightarrow> Inl (NodeError (''undefined: '' @ x)))),
       ResolveSelector = ResolveSelector_spec exact_host,
       ResolveTypeExpression = (\<lambda>st t. Inr t) \<rparr>"

section \<open>Properties of the primitive kernel\<close>

lemmas reg_defs = NewConstructorMap_def AddConstructor_def NewComparatorRules_def AddComparator_def
  NewOperatorRules_def AddOperator_def call_ConstructorFn_def

lemma addNumOperatorMap_lookup:
  "addNumOperatorMap h rules class fn (D, op) =
     (if D = class \<and> arithmeticOp op
      then Some (numOperatorPredicate h (\<lambda>a b. call_ConstructorFn fn (NumberLiteral (arithmetic h op a b))))
      else rules (D, op))"
  by (cases op) (simp_all add: addNumOperatorMap_def AddOperator_def arithmeticOp_def Let_def)

lemma numOperatorMap_lookup:
  "numOperatorMap h fn (D, op) =
     (if numericClass D \<and> arithmeticOp op
      then Some (numOperatorPredicate h (\<lambda>a b. call_ConstructorFn fn (NumberLiteral (arithmetic h op a b))))
      else None)"
  by (auto simp add: numOperatorMap_def addNumOperatorMap_lookup NewOperatorRules_def numericClass_def Let_def)

lemma comparison_unapplied:
  "comparison h EQUALS = f_eq h"
  "comparison h NOT_EQUALS = (\<lambda>a b. \<not> f_eq h a b)"
  "comparison h LESS = f_lt h"
  "comparison h GREATER = (\<lambda>a b. f_lt h b a)"
  "comparison h LESS_EQUAL = f_le h"
  "comparison h GREATER_EQUAL = (\<lambda>a b. f_le h b a)"
  by (simp_all add: fun_eq_iff)

lemma addNumCompareMap_lookup:
  "addNumCompareMap h rules class (D, op) =
     (if D = class \<and> comparisonOp op
      then Some (numComparePredicate h (comparison h op))
      else rules (D, op))"
  by (cases op) (simp_all add: addNumCompareMap_def AddComparator_def comparisonOp_def comparison_unapplied Let_def)

lemma numCompareMap_lookup:
  "numCompareMap h (D, op) =
     (if numericClass D \<and> comparisonOp op
      then Some (numComparePredicate h (comparison h op))
      else None)"
  by (auto simp add: numCompareMap_def addNumCompareMap_lookup NewComparatorRules_def numericClass_def Let_def)

lemma Number_from_Number:
  "numericClass (Class_of a) \<Longrightarrow>
     call_ConstructorFn (Number_Constructors h Number) a = Inr (NumberLiteral (the (widened h a)))"
  by (cases a) (simp_all add: Number_Constructors_def reg_defs Let_def numericClass_def)

lemma numOperatorPredicate_numeric:
  "numericClass (Class_of a) \<Longrightarrow> numericClass (Class_of b) \<Longrightarrow>
     numOperatorPredicate h cb a b = cb (the (widened h a)) (the (widened h b))"
  by (simp add: numOperatorPredicate_def Number_from_Number Let_def)

lemma numComparePredicate_numeric:
  "numericClass (Class_of a) \<Longrightarrow> numericClass (Class_of b) \<Longrightarrow>
     numComparePredicate h cb a b = Inr (BooleanLiteral (cb (the (widened h a)) (the (widened h b))))"
  by (simp add: numComparePredicate_def Number_from_Number Let_def)


lemma fromNumber_call:
  "numericClass C \<Longrightarrow>
     call_ConstructorFn (Constructors h C Number) (NumberLiteral z) = Inr (fromNumber h C z)"
  by (auto simp add: numericClass_def Number_Constructors_def Double_Constructors_def
      Float_Constructors_def Integer_Constructors_def reg_defs Let_def)

lemma Class_of_fromNumber: "numericClass C \<Longrightarrow> Class_of (fromNumber h C z) = C"
  by (auto simp add: numericClass_def)

lemma OperatorRules_numeric:
  "numericClass C \<Longrightarrow> OperatorRules h C = Some (numOperatorMap h (Constructors h C Number))"
  by (auto simp add: numericClass_def)

lemma ComparableRules_numeric:
  "numericClass C \<Longrightarrow> ComparableRules h C = Some (numCompareMap h)"
  by (auto simp add: numericClass_def)

lemma widened_numeric: "numericClass (Class_of a) \<Longrightarrow> \<exists>x. widened h a = Some x"
  by (cases a) (simp_all add: numericClass_def)

text \<open>
  Claim C8. Take any rule registered for a numeric class \<open>C\<close> under the key
  \<open>(D, op)\<close>, and operands \<open>a\<close>, \<open>b\<close> of numeric classes. Both operands pass through the
  Number constructor, which yields their underlying numeric as a \<open>float64\<close> (an
  \<open>int64\<close> widened). For an arithmetic token the rule returns the result of the from-Number
  constructor of \<open>C\<close> on the computed number (Integer truncating, Double quantising), a
  value of class \<open>C\<close>; for a comparison token it returns a Boolean.
\<close>

theorem numeric_rules_coerce_then_return:
  assumes C: "numericClass C" and D: "numericClass D"
    and a: "numericClass (Class_of a)" and b: "numericClass (Class_of b)"
  shows "\<exists>x y. widened h a = Some x \<and> widened h b = Some y
           \<and> call_ConstructorFn (Number_Constructors h Number) a = Inr (NumberLiteral x)
           \<and> call_ConstructorFn (Number_Constructors h Number) b = Inr (NumberLiteral y)
           \<and> (arithmeticOp op \<longrightarrow>
                (\<exists>rules fn. OperatorRules h C = Some rules \<and> rules (D, op) = Some fn
                   \<and> fn a b = call_ConstructorFn (Constructors h C Number)
                                 (NumberLiteral (arithmetic h op x y))
                   \<and> fn a b = Inr (fromNumber h C (arithmetic h op x y))
                   \<and> Class_of (fromNumber h C (arithmetic h op x y)) = C))
           \<and> (comparisonOp op \<longrightarrow>
                (\<exists>rules fn. ComparableRules h C = Some rules \<and> rules (D, op) = Some fn
                   \<and> fn a b = Inr (BooleanLiteral (comparison h op x y))
                   \<and> Class_of (BooleanLiteral (comparison h op x y) :: 'a ValueObject) = Boolean))"
proof -
  obtain x where x: "widened h a = Some x" using widened_numeric [OF a] by blast
  obtain y where y: "widened h b = Some y" using widened_numeric [OF b] by blast
  have na: "call_ConstructorFn (Number_Constructors h Number) a = Inr (NumberLiteral x)"
    using Number_from_Number [OF a, of h] x by simp
  have nb: "call_ConstructorFn (Number_Constructors h Number) b = Inr (NumberLiteral y)"
    using Number_from_Number [OF b, of h] y by simp
  have ar: "arithmeticOp op \<longrightarrow>
      (\<exists>rules fn. OperatorRules h C = Some rules \<and> rules (D, op) = Some fn
         \<and> fn a b = call_ConstructorFn (Constructors h C Number)
                       (NumberLiteral (arithmetic h op x y))
         \<and> fn a b = Inr (fromNumber h C (arithmetic h op x y))
         \<and> Class_of (fromNumber h C (arithmetic h op x y)) = C)"
    using C D x y
    by (simp add: OperatorRules_numeric numOperatorMap_lookup
        numOperatorPredicate_numeric [OF a b] fromNumber_call Class_of_fromNumber)
  have cm: "comparisonOp op \<longrightarrow>
      (\<exists>rules fn. ComparableRules h C = Some rules \<and> rules (D, op) = Some fn
         \<and> fn a b = Inr (BooleanLiteral (comparison h op x y))
         \<and> Class_of (BooleanLiteral (comparison h op x y) :: 'a ValueObject) = Boolean)"
    using C D x y
    by (simp add: ComparableRules_numeric numCompareMap_lookup
        numComparePredicate_numeric [OF a b])
  show ?thesis using x y na nb ar cm by blast
qed

lemma exact_host_fields:
  "f_add exact_host = (\<lambda>a b. a + b)"
  "f_lt exact_host = (\<lambda>a b. a < b)"
  "float64_of_int64 exact_host = (\<lambda>i. of_int (sint i))"
  "int64_of_float64 exact_host = (\<lambda>x. word_of_int (truncate x))"
  by (simp_all add: exact_host_def)

text \<open>
  The rule of Integer for \<open>(Double, +)\<close> on 7 and 2.0 gives the Integer 9, and its rule for
  \<open>(Double, <)\<close> gives false.
\<close>

theorem numeric_rules_coerce_then_return_witness:
  "numericClass Integer \<and> numericClass Double
   \<and> numericClass (Class_of (IntegerLiteral 7 :: real ValueObject))
   \<and> numericClass (Class_of (DoubleLiteral 2 :: real ValueObject))
   \<and> arithmeticOp ADD \<and> comparisonOp LESS
   \<and> (\<exists>rules fn. OperatorRules exact_host Integer = Some rules \<and> rules (Double, ADD) = Some fn
         \<and> fn (IntegerLiteral 7) (DoubleLiteral 2) = Inr (IntegerLiteral 9))
   \<and> (\<exists>rules fn. ComparableRules exact_host Integer = Some rules \<and> rules (Double, LESS) = Some fn
         \<and> fn (IntegerLiteral 7) (DoubleLiteral 2) = Inr (BooleanLiteral False))"
proof -
  have C: "numericClass Integer" and D: "numericClass Double"
    by (simp_all add: numericClass_def)
  have a: "numericClass (Class_of (IntegerLiteral 7 :: real ValueObject))"
    and b: "numericClass (Class_of (DoubleLiteral 2 :: real ValueObject))"
    by (simp_all add: numericClass_def)
  have ops: "arithmeticOp ADD" "comparisonOp LESS"
    by (simp_all add: arithmeticOp_def comparisonOp_def)
  have w: "widened exact_host (IntegerLiteral 7) = Some 7"
    "widened exact_host (DoubleLiteral 2) = Some 2"
    by (simp_all add: exact_host_fields)
  have r: "fromNumber exact_host Integer (arithmetic exact_host ADD 7 2) = IntegerLiteral 9"
    by (simp add: exact_host_fields truncate_def)
  have c: "comparison exact_host LESS 7 2 = False"
    by (simp add: exact_host_fields)
  have ar: "\<exists>rules fn. OperatorRules exact_host Integer = Some rules \<and> rules (Double, ADD) = Some fn
         \<and> fn (IntegerLiteral 7) (DoubleLiteral 2) = Inr (IntegerLiteral 9)"
  proof -
    from numeric_rules_coerce_then_return [OF C D a b, of exact_host ADD] ops(1)
    obtain x y rules fn where
      x: "widened exact_host (IntegerLiteral 7 :: real ValueObject) = Some x" and
      y: "widened exact_host (DoubleLiteral 2) = Some y" and
      f: "OperatorRules exact_host Integer = Some rules" "rules (Double, ADD) = Some fn"
         "fn (IntegerLiteral 7) (DoubleLiteral 2)
            = Inr (fromNumber exact_host Integer (arithmetic exact_host ADD x y))"
      by blast
    have "x = 7" using x w(1) by simp
    moreover have "y = 2" using y w(2) by simp
    ultimately show ?thesis using f r by auto
  qed
  have cm: "\<exists>rules fn. ComparableRules exact_host Integer = Some rules \<and> rules (Double, LESS) = Some fn
         \<and> fn (IntegerLiteral 7) (DoubleLiteral 2) = Inr (BooleanLiteral False)"
  proof -
    from numeric_rules_coerce_then_return [OF C D a b, of exact_host LESS] ops(2)
    obtain x y rules fn where
      x: "widened exact_host (IntegerLiteral 7 :: real ValueObject) = Some x" and
      y: "widened exact_host (DoubleLiteral 2) = Some y" and
      f: "ComparableRules exact_host Integer = Some rules" "rules (Double, LESS) = Some fn"
         "fn (IntegerLiteral 7) (DoubleLiteral 2)
            = Inr (BooleanLiteral (comparison exact_host LESS x y))"
      by blast
    have "x = 7" using x w(1) by simp
    moreover have "y = 2" using y w(2) by simp
    ultimately show ?thesis using f c by auto
  qed
  show ?thesis using C D a b ops ar cm by blast
qed

text \<open>
  The Double constructor on each numeric source: it quantises a Number, a Double and a
  Float, and faults on an Integer, whose \<open>Value()\<close> is an \<open>int64\<close> and fails the
  assertion \<open>.(float64)\<close>.
\<close>

lemma Construct_Double_by_source:
  "Construct h Double (NumberLiteral x) = Inr (DoubleLiteral (quantise h x))
   \<and> Construct h Double (DoubleLiteral x) = Inr (DoubleLiteral (quantise h x))
   \<and> Construct h Double (FloatLiteral x) = Inr (DoubleLiteral (quantise h x))
   \<and> Construct h Double (IntegerLiteral i) = Inl (Panic ''interface conversion: not float64'')"
  by (simp add: Construct_def Double_Constructors_def reg_defs quantise_def Let_def)

text \<open>
  Claim C5. \<open>Construct(Double, v)\<close> is claimed to succeed for every \<open>v\<close> of class Number,
  Double, Integer or Float. On the Integer 3 the registered constructor ends in a runtime
  fault instead of returning a DoubleLiteral.
\<close>

theorem Construct_Double_Integer_panics:
  "Construct exact_host Double (IntegerLiteral 3) = Inl (Panic ''interface conversion: not float64'')"
  by (simp add: Construct_def Double_Constructors_def reg_defs Let_def)

text \<open>
  Claim C6, as stated, fails on Nil: \<open>Construct\<close> of the Nil value to its own class finds
  no constructor.
\<close>

theorem Construct_Nil_fails:
  "Construct exact_host NilLiteral_class NilLiteral
     = Inl (CannotConstruct NilLiteral_class NilLiteral_class)"
  by (simp add: Construct_def NilLiteral_Constructors_def reg_defs)

text \<open>
  Claim C6, amended. \<open>Construct(V.Class(), V)\<close> returns \<open>V\<close> for a Boolean, String, Number,
  Integer or Float value, the re-quantised value for a Double, and fails with "cannot
  construct" for Nil, Date and DateTime, whose classes register no constructor.
\<close>

theorem Construct_own_class:
  "Construct h Boolean (BooleanLiteral b) = Inr (BooleanLiteral b)
   \<and> Construct h String_class (StringLiteral s) = Inr (StringLiteral s)
   \<and> Construct h Number (NumberLiteral x) = Inr (NumberLiteral x)
   \<and> Construct h Integer (IntegerLiteral i) = Inr (IntegerLiteral i)
   \<and> Construct h Float (FloatLiteral x) = Inr (FloatLiteral x)
   \<and> Construct h Double (DoubleLiteral x) = Inr (DoubleLiteral (quantise h x))
   \<and> Construct h NilLiteral_class NilLiteral = Inl (CannotConstruct NilLiteral_class NilLiteral_class)
   \<and> Construct h Date DateLiteral = Inl (CannotConstruct Date Date)
   \<and> Construct h DateTime DateTimeLiteral = Inl (CannotConstruct DateTime DateTime)"
  by (simp add: Construct_def Boolean_Constructors_def String_Constructors_def
      Number_Constructors_def Integer_Constructors_def Float_Constructors_def
      Double_Constructors_def NilLiteral_Constructors_def Date_Constructors_def
      DateTime_Constructors_def reg_defs quantise_def Let_def)



section \<open>Properties of the engine\<close>

lemma literal_engine_fields:
  "kernel literal_engine = exact_host"
  "ResolveValueObject literal_engine = (\<lambda>st e. Inr e)"
  "ResolveExpression literal_engine = (\<lambda>st e. Inr (Some (ValueObj e)))"
  "ValidateExpression literal_engine = (\<lambda>st e. Inr (Class_of e))"
  "ResolveSelector literal_engine = ResolveSelector_spec exact_host"
  "ResolveTypeExpression literal_engine = (\<lambda>st t. Inr t)"
  by (simp_all add: literal_engine_def)

text \<open>
  An assignment to a single name bound to a value never ends without an error: the walk
  that writes back starts from an empty rest of the selector and indexes it.
\<close>

lemma ResolveAssignmentExpression_single_name:
  assumes "as_ValueObject (local st name) \<noteq> None"
  shows "fst (ResolveAssignmentExpression E st (AssignmentExpression [name] Operator Init)) \<noteq> None"
  using assms
  by (auto simp add: ResolveAssignmentExpression_def Let_def split: sum.splits option.splits)

lemma ResolveAssignmentExpression_single_name_Panic:
  assumes "immutable st name = None"
    and "ResolveSelector E st [name] = Inr obj"
    and "as_ValueObject obj = Some object"
    and "as_ValueObject (local st name) \<noteq> None"
    and "ResolveValueObject E st Init = Inr operand"
    and "Construct (kernel E) (Class_of object) operand = Inr new"
  shows "ResolveAssignmentExpression E st (AssignmentExpression [name] ASSIGN Init)
           = (Some (Panic ''index out of range [0] with length 0''), st)"
  using assms
  by (auto simp add: ResolveAssignmentExpression_def Let_def split: option.splits)

text \<open>
  Claim C1. An assignment to a single name bound to a value is claimed to end without a
  runtime fault and to rebind the name. With \<open>x\<close> bound to the Integer 0, \<open>x = 1\<close> ends
  in an index out of range, and \<open>x\<close> is still bound to 0.
\<close>

theorem ResolveAssignmentExpression_single_name_faults:
  "ResolveAssignmentExpression literal_engine
     \<lparr>local = [''x'' \<mapsto> ValueObj (IntegerLiteral 0)], immutable = Map.empty\<rparr>
     (AssignmentExpression [''x''] ASSIGN (IntegerLiteral 1))
   = (Some (Panic ''index out of range [0] with length 0''),
      \<lparr>local = [''x'' \<mapsto> ValueObj (IntegerLiteral 0)], immutable = Map.empty\<rparr>)"
  by (simp add: ResolveAssignmentExpression_def literal_engine_fields ResolveSelector_spec_def
      Construct_def Integer_Constructors_def reg_defs Let_def)

text \<open>Validating an assignment leaves the table as it was.\<close>

lemma ValidateAssignmentExpression_writes_nothing:
  "snd (ValidateAssignmentExpression E st expr) = st"
  by (cases expr)
     (auto simp add: ValidateAssignmentExpression_def split: list.splits sum.splits option.splits)

text \<open>
  Claim C4. Validating \<open>x = e\<close> is claimed to succeed exactly when there is a constructor
  from the class of \<open>e\<close> to the class of \<open>x\<close>. The source passes the two classes to
  \<open>ShouldConstruct\<close> the other way round: with \<open>x\<close> an Integer, \<open>x = "a"\<close> validates
  although Integer has no constructor from String; with \<open>s\<close> a String, \<open>s = 1\<close> is
  rejected although String has a constructor from Integer.
\<close>

theorem ValidateAssignmentExpression_swapped:
  "ValidateAssignmentExpression literal_engine
     \<lparr>local = [''x'' \<mapsto> ClassObject Integer], immutable = Map.empty\<rparr>
     (AssignmentExpression [''x''] ASSIGN (StringLiteral ''a''))
   = (None, \<lparr>local = [''x'' \<mapsto> ClassObject Integer], immutable = Map.empty\<rparr>)
   \<and> ShouldConstruct exact_host Integer String_class = Some (CannotConstruct Integer String_class)
   \<and> ValidateAssignmentExpression literal_engine
     \<lparr>local = [''s'' \<mapsto> ClassObject String_class], immutable = Map.empty\<rparr>
     (AssignmentExpression [''s''] ASSIGN (IntegerLiteral 1))
   = (Some (NodeError_of (CannotConstruct Integer String_class)),
      \<lparr>local = [''s'' \<mapsto> ClassObject String_class], immutable = Map.empty\<rparr>)
   \<and> ShouldConstruct exact_host String_class Integer = None"
  by (simp add: ValidateAssignmentExpression_def literal_engine_fields
      ShouldConstruct_def Integer_Constructors_def String_Constructors_def reg_defs Let_def)

lemma Operate_EQUALS_numeric:
  assumes "numericClass (Class_of a)" and "numericClass (Class_of b)"
  shows "Operate h EQUALS a b
           = Inr (BooleanLiteral (f_eq h (the (widened h a)) (the (widened h b))))"
  using assms
  by (simp add: Operate_def lookupRule_def isComparator_def ComparableRules_numeric
      numCompareMap_lookup comparisonOp_def numComparePredicate_numeric)

lemma Operate_EQUALS_Integer:
  "Operate exact_host EQUALS (IntegerLiteral i) (IntegerLiteral j)
     = Inr (BooleanLiteral ((signed i :: real) = signed j))"
  by (simp add: Operate_EQUALS_numeric numericClass_def exact_host_def)

text \<open>
  Claim C3. \<open>ValidateLoopBlock\<close> is claimed to accept \<open>continue\<close> and \<open>break\<close> as
  direct children of a loop body. It hands every statement to \<open>ValidateBlockStatement\<close>,
  whose cases for the two are commented out: a body that is a single \<open>break\<close>, or a
  single \<open>continue\<close>, is rejected as an unknown statement, and so is the statement
  \<open>while true { break }\<close>.
\<close>

theorem ValidateLoopBlock_rejects_break_and_continue:
  "ValidateLoopBlock literal_engine \<lparr>local = Map.empty, immutable = Map.empty\<rparr> [BreakStatement]
     = (Some (NodeError ''unknown block statement type''), \<lparr>local = Map.empty, immutable = Map.empty\<rparr>)
   \<and> ValidateLoopBlock literal_engine \<lparr>local = Map.empty, immutable = Map.empty\<rparr> [ContinueStatement]
     = (Some (NodeError ''unknown block statement type''), \<lparr>local = Map.empty, immutable = Map.empty\<rparr>)
   \<and> ValidateBlockStatement literal_engine \<lparr>local = Map.empty, immutable = Map.empty\<rparr>
        (WhileStatement (BooleanLiteral True) [BreakStatement])
     = (Some (NodeError ''unknown block statement type''), \<lparr>local = Map.empty, immutable = Map.empty\<rparr>)"
  by (simp add: literal_engine_fields)

text \<open>
  The same for any loop body: the first \<open>continue\<close> or \<open>break\<close> among its direct
  children, when the statements before it validate, ends \<open>ValidateLoopBlock\<close> with the
  error. \<open>ValidateBlock\<close> rejects one at its head, as the claim says.
\<close>

lemma ValidateLoopBlock_direct_child:
  assumes "stmt = ContinueStatement \<or> stmt = BreakStatement"
    and "ValidateLoopBlock E st pre = (None, st')"
  shows "fst (ValidateLoopBlock E st (pre @ stmt # post)) = Some (NodeError ''unknown block statement type'')"
  using assms
  by (induction pre arbitrary: st) (auto split: prod.splits option.splits)

lemma ValidateBlock_direct_child:
  assumes "stmt = ContinueStatement \<or> stmt = BreakStatement"
  shows "fst (ValidateBlock E st (stmt # post)) \<noteq> None"
  using assms by auto

lemma ResolveFunctionBlock_no_ReturnType:
  assumes "ResolveFunctionBlock E n st (FunctionBlock Arguments None Body) proto = Inr fn"
  shows "returns fn = None
         \<and> handler fn = Some (ResolveFunctionBlock_handler E n st (FunctionBlock Arguments None Body) None)"
  using assms
  by (auto simp add: ResolveFunctionBlock_def Let_def split: if_splits prod.splits sum.splits option.splits)

lemma ResolveFunctionBlock_handler_no_returns:
  assumes "ResolveFunctionBlock_handler E n st node None args p = Some (Inr r)"
  shows "r = None"
  using assms
  by (cases node)
     (auto simp add: ResolveFunctionBlock_handler_def Let_def
           split: prod.splits sum.splits option.splits)

text \<open>
  Claim C10. For a function compiled by \<open>ResolveFunctionBlock\<close> from a node with no
  declared return type, every call that succeeds returns no value, whatever the body
  produced.
\<close>

theorem Call_without_ReturnType_returns_nil:
  assumes "ResolveFunctionBlock E n st (FunctionBlock Arguments None Body) proto = Inr fn"
    and "Call (kernel E) fn args p = Some (Inr r)"
  shows "r = None"
proof -
  from ResolveFunctionBlock_no_ReturnType [OF assms(1)]
  have h: "handler fn = Some (ResolveFunctionBlock_handler E n st (FunctionBlock Arguments None Body) None)"
    by simp
  from assms(2) h obtain args' where
    "ResolveFunctionBlock_handler E n st (FunctionBlock Arguments None Body) None args' p = Some (Inr r)"
    by (auto simp add: Call_def split: if_splits sum.splits)
  then show ?thesis by (rule ResolveFunctionBlock_handler_no_returns)
qed


text \<open>
  The function with no return type and body \<open>return 1\<close> compiles, and calling it
  succeeds with no value.
\<close>

theorem Call_without_ReturnType_returns_nil_witness:
  "ResolveFunctionBlock literal_engine 1 \<lparr>local = Map.empty, immutable = Map.empty\<rparr>
      (FunctionBlock [] None [ReturnStatement (IntegerLiteral 1)]) None
     = Inr \<lparr>arguments = [], returns = None,
            handler = Some (ResolveFunctionBlock_handler literal_engine 1
                       \<lparr>local = Map.empty, immutable = Map.empty\<rparr>
                       (FunctionBlock [] None [ReturnStatement (IntegerLiteral 1)]) None)\<rparr>
   \<and> Call (kernel literal_engine)
        \<lparr>arguments = [], returns = None,
            handler = Some (ResolveFunctionBlock_handler literal_engine 1
                       \<lparr>local = Map.empty, immutable = Map.empty\<rparr>
                       (FunctionBlock [] None [ReturnStatement (IntegerLiteral 1)]) None)\<rparr>
        [] None
     = Some (Inr None)"
proof -
  let ?st = "\<lparr>local = Map.empty, immutable = Map.empty\<rparr> :: real SymbolTable"
  let ?node = "FunctionBlock [] None [ReturnStatement (IntegerLiteral 1)] :: (real ValueObject, Class) FunctionBlock"
  let ?fn = "\<lparr>arguments = [], returns = None,
            handler = Some (ResolveFunctionBlock_handler literal_engine 1 ?st ?node None)\<rparr>"
  have r: "ResolveFunctionBlock literal_engine 1 ?st ?node None = Inr ?fn"
    by (simp add: ResolveFunctionBlock_def Clone_def literal_engine_fields)
  have "\<exists>res. Call (kernel literal_engine) ?fn [] None = Some (Inr res)"
    by (simp add: Call_def ResolveMethodArguments_def ResolveFunctionBlock_handler_def
        Clone_def literal_engine_fields)
  then obtain res where c: "Call (kernel literal_engine) ?fn [] None = Some (Inr res)" by blast
  from Call_without_ReturnType_returns_nil [OF r c] have "res = None" .
  with r c show ?thesis by simp
qed

text \<open>
  Claim C2, as stated, fails: in \<open>switch (1) { case 1: let a = 10; case 1: let b = 20 }\<close>
  the bodies of both cases are executed, and both names are bound afterwards.
\<close>

theorem ResolveSwitchBlock_runs_both_equal_cases:
  "ResolveBlockStatement literal_engine 2 \<lparr>local = Map.empty, immutable = Map.empty\<rparr>
     (SwitchBlock (IntegerLiteral 1)
        [CaseBlock False (Some (IntegerLiteral 1))
           [Declaration (DeclarationStatement ''a'' (IntegerLiteral 10))],
         CaseBlock False (Some (IntegerLiteral 1))
           [Declaration (DeclarationStatement ''b'' (IntegerLiteral 20))]])
   = Some (Inr None,
           \<lparr>local = [''a'' \<mapsto> ValueObj (IntegerLiteral 10), ''b'' \<mapsto> ValueObj (IntegerLiteral 20)],
            immutable = Map.empty\<rparr>)"
  by (simp add: numeral_2_eq_2 ResolveSwitchBlock_def literal_engine_fields
      Operate_EQUALS_Integer ResolveDeclarationStatement_def)


lemma ResolveSwitchBlock_cases_passed_over:
  assumes "\<forall>c \<in> set pre. casePassedOver E target st c"
  shows "ResolveSwitchBlock_cases E rbs target st (pre @ rest) resolved
           = ResolveSwitchBlock_cases E rbs target st rest resolved"
  using assms
proof (induction pre)
  case Nil
  then show ?case by simp
next
  case (Cons c pre)
  then show ?case
    by (cases c) (auto simp add: casePassedOver_def split: option.splits sum.splits)
qed

lemma ResolveSwitchBlock_cases_stays_resolved:
  assumes "ResolveSwitchBlock_cases E rbs target st cases True = Some (Inr resolved, st')"
  shows "resolved"
  using assms
proof (induction cases arbitrary: st)
  case Nil
  then show ?case by simp
next
  case (Cons c cases)
  then show ?case
    by (cases c) (auto split: if_splits option.splits sum.splits prod.splits)
qed

lemma caseMatches_not_passed_over:
  "caseMatches E target st c \<Longrightarrow> \<not> casePassedOver E target st c"
  by (cases c) (auto simp add: caseMatches_def casePassedOver_def split: option.splits sum.splits)

lemma casePassedOver_iff:
  "casePassedOver E target st c \<longleftrightarrow> caseFault E target st c = None \<and> \<not> caseMatches E target st c"
  by (cases c)
     (auto simp add: caseMatches_def casePassedOver_def caseFault_def split: option.splits sum.splits)

lemma caseMatches_no_fault:
  "caseMatches E target st c \<Longrightarrow> caseFault E target st c = None"
  by (cases c) (auto simp add: caseMatches_def caseFault_def split: option.splits sum.splits)

lemma runEqualCases_passed_over:
  assumes "\<forall>c \<in> set pre. casePassedOver E target st c"
  shows "runEqualCases E rbs target st (pre @ rest) = runEqualCases E rbs target st rest"
  using assms by (induction pre) (simp_all add: casePassedOver_iff)

lemma runEqualCases_match:
  assumes "caseMatches E target st (CaseBlock IsDefault Condition Body)"
  shows "runEqualCases E rbs target st (CaseBlock IsDefault Condition Body # post)
           = (case ResolveBlock rbs st Body of
                None \<Rightarrow> None
              | Some (Inl err, st') \<Rightarrow> Some (Inl err, st')
              | Some (Inr (Some returnObject), st') \<Rightarrow> Some (Inr (Some returnObject), st')
              | Some (Inr None, st') \<Rightarrow> runEqualCases E rbs target st' post)"
  using assms by (simp add: caseMatches_no_fault)

lemma forget_resolved_simps:
  "forget_resolved (Inl (Inl err), st') = (Inl err, st')"
  "forget_resolved (Inl (Inr returnObject), st') = (Inr (Some returnObject), st')"
  "forget_resolved (Inr resolved, st') = (Inr None, st')"
  by (simp_all add: forget_resolved_def)

lemma ResolveSwitchBlock_cases_runEqualCases:
  "map_option forget_resolved (ResolveSwitchBlock_cases E rbs target st cases resolved)
     = runEqualCases E rbs target st cases"
proof (induction cases arbitrary: st resolved)
  case Nil
  then show ?case by (simp add: forget_resolved_simps)
next
  case (Cons c cases)
  show ?case
  proof (cases c)
    case (CaseBlock IsDefault Condition Body)
    show ?thesis
      unfolding CaseBlock
      by (auto simp add: caseFault_def caseMatches_def forget_resolved_simps Cons.IH
            split: option.splits sum.splits prod.splits)
  qed
qed


lemma all_passed_over_cases:
  assumes "\<forall>c \<in> set cases. casePassedOver E target st c"
  shows "ResolveSwitchBlock_cases E rbs target st cases resolved = Some (Inr resolved, st)"
  using ResolveSwitchBlock_cases_passed_over [OF assms, of rbs "[]" resolved] by simp

lemma not_all_passed_over_resolved:
  assumes "\<not> (\<forall>c \<in> set cases. casePassedOver E target st c)"
    and "ResolveSwitchBlock_cases E rbs target st cases resolved = Some (Inr flag, st')"
  shows "flag"
  using assms
proof (induction cases arbitrary: resolved)
  case Nil
  then show ?case by simp
next
  case (Cons c cases)
  show ?case
  proof (cases "casePassedOver E target st c")
    case True
    then have "ResolveSwitchBlock_cases E rbs target st (c # cases) resolved
                 = ResolveSwitchBlock_cases E rbs target st cases resolved"
      using ResolveSwitchBlock_cases_passed_over [of "[c]" E target st rbs cases resolved] by simp
    with Cons True show ?thesis by auto
  next
    case False
    obtain d cond body where c: "c = CaseBlock d cond body" by (cases c)
    from False Cons.prems(2) show ?thesis
      unfolding c
      by (auto simp add: casePassedOver_def
            split: if_splits option.splits sum.splits prod.splits
            dest: ResolveSwitchBlock_cases_stays_resolved)
  qed
qed

lemma ResolveSwitchBlock_runEqualCases:
  assumes target: "ResolveValueObject E st Target = Inr target"
    and operable: "OperatorRules (kernel E) (Class_of target) \<noteq> None"
  shows "ResolveSwitchBlock E rbs st Target cases
           = (if \<forall>c \<in> set cases. casePassedOver E target st c
              then ResolveSwitchBlock_defaults rbs st cases
              else runEqualCases E rbs target st cases)"
proof (cases "\<forall>c \<in> set cases. casePassedOver E target st c")
  case True
  then show ?thesis
    using target operable by (simp add: ResolveSwitchBlock_def all_passed_over_cases)
next
  case False
  have run: "map_option forget_resolved (ResolveSwitchBlock_cases E rbs target st cases False)
               = runEqualCases E rbs target st cases"
    by (rule ResolveSwitchBlock_cases_runEqualCases)
  have flag: "\<And>flag st'. ResolveSwitchBlock_cases E rbs target st cases False = Some (Inr flag, st')
                 \<Longrightarrow> flag"
    using not_all_passed_over_resolved [OF False] by blast
  have "ResolveSwitchBlock E rbs st Target cases
          = map_option forget_resolved (ResolveSwitchBlock_cases E rbs target st cases False)"
    using target operable
    by (auto simp add: ResolveSwitchBlock_def forget_resolved_simps
          split: option.splits sum.splits prod.splits dest: flag)
  then have "ResolveSwitchBlock E rbs st Target cases = runEqualCases E rbs target st cases"
    using run by simp
  then show ?thesis using False by auto
qed


text \<open>
  Claim C2, amended. With the target evaluated and operable, the switch is the run of its
  default bodies when every case is passed over, and otherwise the run of the equal cases,
  in which no default body is executed. So the cases before the first matching one run no
  body and that case's body is executed in the table as it was; if it fails or yields a
  return object the switch ends with it. If it yields none and every later case is
  passed over, a default among them included, the switch ends with no value and the
  table as that body left it. If it yields none and a later case matches in that table,
  the body of the later case is executed too.
\<close>

theorem ResolveSwitchBlock_equal_cases:
  assumes target: "ResolveValueObject E st Target = Inr target"
    and operable: "OperatorRules (kernel E) (Class_of target) \<noteq> None"
  shows "ResolveSwitchBlock E rbs st Target cases
           = (if \<forall>c \<in> set cases. casePassedOver E target st c
              then ResolveSwitchBlock_defaults rbs st cases
              else runEqualCases E rbs target st cases)
         \<and> ((\<forall>c \<in> set pre. casePassedOver E target st c)
              \<and> caseMatches E target st (CaseBlock False (Some cond1) Body1) \<longrightarrow>
            ResolveSwitchBlock E rbs st Target (pre @ CaseBlock False (Some cond1) Body1 # post)
              = (case ResolveBlock rbs st Body1 of
                   None \<Rightarrow> None
                 | Some (Inl err, st1) \<Rightarrow> Some (Inl err, st1)
                 | Some (Inr (Some returnObject), st1) \<Rightarrow> Some (Inr (Some returnObject), st1)
                 | Some (Inr None, st1) \<Rightarrow> runEqualCases E rbs target st1 post))
         \<and> ((\<forall>c \<in> set pre. casePassedOver E target st c)
              \<and> caseMatches E target st (CaseBlock False (Some cond1) Body1)
              \<and> ResolveBlock rbs st Body1 = Some (Inr None, st1)
              \<and> (\<forall>c \<in> set post. casePassedOver E target st1 c) \<longrightarrow>
            ResolveSwitchBlock E rbs st Target (pre @ CaseBlock False (Some cond1) Body1 # post)
              = Some (Inr None, st1))
         \<and> ((\<forall>c \<in> set pre. casePassedOver E target st c)
              \<and> caseMatches E target st (CaseBlock False (Some cond1) Body1)
              \<and> ResolveBlock rbs st Body1 = Some (Inr None, st1)
              \<and> (\<forall>c \<in> set mid. casePassedOver E target st1 c)
              \<and> caseMatches E target st1 (CaseBlock False (Some cond2) Body2) \<longrightarrow>
            ResolveSwitchBlock E rbs st Target
                (pre @ CaseBlock False (Some cond1) Body1 # mid @ CaseBlock False (Some cond2) Body2 # post2)
              = (case ResolveBlock rbs st1 Body2 of
                   None \<Rightarrow> None
                 | Some (Inl err, st2) \<Rightarrow> Some (Inl err, st2)
                 | Some (Inr (Some returnObject), st2) \<Rightarrow> Some (Inr (Some returnObject), st2)
                 | Some (Inr None, st2) \<Rightarrow> runEqualCases E rbs target st2 post2))"
proof -
  note general = ResolveSwitchBlock_runEqualCases [OF target operable]
  have first: "ResolveSwitchBlock E rbs st Target (pre @ CaseBlock False (Some cond1) Body1 # rest)
              = (case ResolveBlock rbs st Body1 of
                   None \<Rightarrow> None
                 | Some (Inl err, st1) \<Rightarrow> Some (Inl err, st1)
                 | Some (Inr (Some returnObject), st1) \<Rightarrow> Some (Inr (Some returnObject), st1)
                 | Some (Inr None, st1) \<Rightarrow> runEqualCases E rbs target st1 rest)"
    if pre: "\<forall>c \<in> set pre. casePassedOver E target st c"
      and m: "caseMatches E target st (CaseBlock False (Some cond1) Body1)"
    for rest
  proof -
    have "\<not> (\<forall>c \<in> set (pre @ CaseBlock False (Some cond1) Body1 # rest). casePassedOver E target st c)"
      using caseMatches_not_passed_over [OF m] by simp
    then have "ResolveSwitchBlock E rbs st Target (pre @ CaseBlock False (Some cond1) Body1 # rest)
                 = runEqualCases E rbs target st (pre @ CaseBlock False (Some cond1) Body1 # rest)"
      by (simp only: general if_False)
    also have "\<dots> = runEqualCases E rbs target st (CaseBlock False (Some cond1) Body1 # rest)"
      by (rule runEqualCases_passed_over [OF pre])
    finally show ?thesis by (simp only: runEqualCases_match [OF m])
  qed
  have none: "ResolveSwitchBlock E rbs st Target (pre @ CaseBlock False (Some cond1) Body1 # post)
              = Some (Inr None, st1)"
    if pre: "\<forall>c \<in> set pre. casePassedOver E target st c"
      and m: "caseMatches E target st (CaseBlock False (Some cond1) Body1)"
      and body: "ResolveBlock rbs st Body1 = Some (Inr None, st1)"
      and post: "\<forall>c \<in> set post. casePassedOver E target st1 c"
  proof -
    have "runEqualCases E rbs target st1 (post @ []) = runEqualCases E rbs target st1 []"
      by (rule runEqualCases_passed_over [OF post])
    then have "runEqualCases E rbs target st1 post = Some (Inr None, st1)" by simp
    then show ?thesis by (simp add: first [OF pre m] body)
  qed
  have later: "ResolveSwitchBlock E rbs st Target
                (pre @ CaseBlock False (Some cond1) Body1 # mid @ CaseBlock False (Some cond2) Body2 # post2)
              = (case ResolveBlock rbs st1 Body2 of
                   None \<Rightarrow> None
                 | Some (Inl err, st2) \<Rightarrow> Some (Inl err, st2)
                 | Some (Inr (Some returnObject), st2) \<Rightarrow> Some (Inr (Some returnObject), st2)
                 | Some (Inr None, st2) \<Rightarrow> runEqualCases E rbs target st2 post2)"
    if pre: "\<forall>c \<in> set pre. casePassedOver E target st c"
      and m: "caseMatches E target st (CaseBlock False (Some cond1) Body1)"
      and body: "ResolveBlock rbs st Body1 = Some (Inr None, st1)"
      and mid: "\<forall>c \<in> set mid. casePassedOver E target st1 c"
      and m2: "caseMatches E target st1 (CaseBlock False (Some cond2) Body2)"
  proof -
    have "runEqualCases E rbs target st1 (mid @ CaseBlock False (Some cond2) Body2 # post2)
            = runEqualCases E rbs target st1 (CaseBlock False (Some cond2) Body2 # post2)"
      by (rule runEqualCases_passed_over [OF mid])
    then show ?thesis
      by (simp only: first [OF pre m] body option.case prod.case sum.case
            runEqualCases_match [OF m2])
  qed
  show ?thesis using general first none later by blast
qed


text \<open>
  \<open>switch (1) { case 2: return "x"; case 1: let a = 10; default: let z = 0; case 1: let b = 20 }\<close>
  binds \<open>a\<close> and \<open>b\<close> and leaves \<open>z\<close> unbound.
\<close>

theorem ResolveSwitchBlock_equal_cases_witness:
  "ResolveValueObject literal_engine \<lparr>local = Map.empty, immutable = Map.empty\<rparr> (IntegerLiteral 1)
     = Inr (IntegerLiteral 1)
   \<and> OperatorRules (kernel literal_engine) (Class_of (IntegerLiteral 1 :: real ValueObject)) \<noteq> None
   \<and> casePassedOver literal_engine (IntegerLiteral 1) \<lparr>local = Map.empty, immutable = Map.empty\<rparr>
         (CaseBlock False (Some (IntegerLiteral 2)) [ReturnStatement (StringLiteral ''x'')])
   \<and> caseMatches literal_engine (IntegerLiteral 1) \<lparr>local = Map.empty, immutable = Map.empty\<rparr>
         (CaseBlock False (Some (IntegerLiteral 1))
            [Declaration (DeclarationStatement ''a'' (IntegerLiteral 10))])
   \<and> ResolveBlock (ResolveBlockStatement literal_engine 1)
         \<lparr>local = Map.empty, immutable = Map.empty\<rparr>
         [Declaration (DeclarationStatement ''a'' (IntegerLiteral 10))]
       = Some (Inr None, \<lparr>local = [''a'' \<mapsto> ValueObj (IntegerLiteral 10)], immutable = Map.empty\<rparr>)
   \<and> casePassedOver literal_engine (IntegerLiteral 1)
         \<lparr>local = [''a'' \<mapsto> ValueObj (IntegerLiteral 10)], immutable = Map.empty\<rparr>
         (CaseBlock True None [Declaration (DeclarationStatement ''z'' (IntegerLiteral 0))])
   \<and> caseMatches literal_engine (IntegerLiteral 1)
         \<lparr>local = [''a'' \<mapsto> ValueObj (IntegerLiteral 10)], immutable = Map.empty\<rparr>
         (CaseBlock False (Some (IntegerLiteral 1))
            [Declaration (DeclarationStatement ''b'' (IntegerLiteral 20))])
   \<and> ResolveSwitchBlock literal_engine (ResolveBlockStatement literal_engine 1)
         \<lparr>local = Map.empty, immutable = Map.empty\<rparr> (IntegerLiteral 1)
         ([CaseBlock False (Some (IntegerLiteral 2)) [ReturnStatement (StringLiteral ''x'')]]
          @ CaseBlock False (Some (IntegerLiteral 1))
              [Declaration (DeclarationStatement ''a'' (IntegerLiteral 10))]
          # [CaseBlock True None [Declaration (DeclarationStatement ''z'' (IntegerLiteral 0))]]
          @ CaseBlock False (Some (IntegerLiteral 1))
              [Declaration (DeclarationStatement ''b'' (IntegerLiteral 20))]
          # [])
       = Some (Inr None,
               \<lparr>local = [''a'' \<mapsto> ValueObj (IntegerLiteral 10), ''b'' \<mapsto> ValueObj (IntegerLiteral 20)],
                immutable = Map.empty\<rparr>)"
proof -
  let ?st = "\<lparr>local = Map.empty, immutable = Map.empty\<rparr> :: real SymbolTable"
  let ?sta = "\<lparr>local = [''a'' \<mapsto> ValueObj (IntegerLiteral 10)], immutable = Map.empty\<rparr> :: real SymbolTable"
  let ?stab = "\<lparr>local = [''a'' \<mapsto> ValueObj (IntegerLiteral 10), ''b'' \<mapsto> ValueObj (IntegerLiteral 20)],
                immutable = Map.empty\<rparr> :: real SymbolTable"
  let ?c0 = "CaseBlock False (Some (IntegerLiteral 2)) [ReturnStatement (StringLiteral ''x'')]
               :: real ValueObject CaseBlock"
  let ?z = "CaseBlock True None [Declaration (DeclarationStatement ''z'' (IntegerLiteral 0))]
               :: real ValueObject CaseBlock"
  have target: "ResolveValueObject literal_engine ?st (IntegerLiteral 1) = Inr (IntegerLiteral 1)"
    by (simp add: literal_engine_fields)
  have operable: "OperatorRules (kernel literal_engine) (Class_of (IntegerLiteral 1 :: real ValueObject)) \<noteq> None"
    by simp
  have p0: "casePassedOver literal_engine (IntegerLiteral 1) ?st ?c0"
    by (simp add: casePassedOver_def literal_engine_fields Operate_EQUALS_Integer)
  have m1: "caseMatches literal_engine (IntegerLiteral 1) ?st
         (CaseBlock False (Some (IntegerLiteral 1))
            [Declaration (DeclarationStatement ''a'' (IntegerLiteral 10))])"
    by (simp add: caseMatches_def literal_engine_fields Operate_EQUALS_Integer)
  have body1: "ResolveBlock (ResolveBlockStatement literal_engine 1) ?st
         [Declaration (DeclarationStatement ''a'' (IntegerLiteral 10))] = Some (Inr None, ?sta)"
    by (simp add: literal_engine_fields ResolveDeclarationStatement_def)
  have pz: "casePassedOver literal_engine (IntegerLiteral 1) ?sta ?z"
    by (simp add: casePassedOver_def)
  have m2: "caseMatches literal_engine (IntegerLiteral 1) ?sta
         (CaseBlock False (Some (IntegerLiteral 1))
            [Declaration (DeclarationStatement ''b'' (IntegerLiteral 20))])"
    by (simp add: caseMatches_def literal_engine_fields Operate_EQUALS_Integer)
  have body2: "ResolveBlock (ResolveBlockStatement literal_engine 1) ?sta
         [Declaration (DeclarationStatement ''b'' (IntegerLiteral 20))] = Some (Inr None, ?stab)"
    by (simp add: literal_engine_fields ResolveDeclarationStatement_def)
  have pre: "\<forall>c \<in> set [?c0]. casePassedOver literal_engine (IntegerLiteral 1) ?st c"
    using p0 by simp
  have mid: "\<forall>c \<in> set [?z]. casePassedOver literal_engine (IntegerLiteral 1) ?sta c"
    using pz by simp
  from ResolveSwitchBlock_equal_cases [OF target operable,
      of "ResolveBlockStatement literal_engine 1" _ "[?c0]" "IntegerLiteral 1"
         "[Declaration (DeclarationStatement ''a'' (IntegerLiteral 10))]" _ ?sta
         "[?z]" "IntegerLiteral 1"
         "[Declaration (DeclarationStatement ''b'' (IntegerLiteral 20))]" "[]"]
       pre m1 body1 mid m2
  have "ResolveSwitchBlock literal_engine (ResolveBlockStatement literal_engine 1) ?st (IntegerLiteral 1)
         ([?c0]
          @ CaseBlock False (Some (IntegerLiteral 1))
              [Declaration (DeclarationStatement ''a'' (IntegerLiteral 10))]
          # [?z]
          @ CaseBlock False (Some (IntegerLiteral 1))
              [Declaration (DeclarationStatement ''b'' (IntegerLiteral 20))]
          # [])
       = (case ResolveBlock (ResolveBlockStatement literal_engine 1) ?sta
                 [Declaration (DeclarationStatement ''b'' (IntegerLiteral 20))] of
            None \<Rightarrow> None
          | Some (Inl err, st2) \<Rightarrow> Some (Inl err, st2)
          | Some (Inr (Some returnObject), st2) \<Rightarrow> Some (Inr (Some returnObject), st2)
          | Some (Inr None, st2) \<Rightarrow> runEqualCases literal_engine (ResolveBlockStatement literal_engine 1)
                                       (IntegerLiteral 1) st2 [])"
    by blast
  then have "ResolveSwitchBlock literal_engine (ResolveBlockStatement literal_engine 1) ?st (IntegerLiteral 1)
         ([?c0]
          @ CaseBlock False (Some (IntegerLiteral 1))
              [Declaration (DeclarationStatement ''a'' (IntegerLiteral 10))]
          # [?z]
          @ CaseBlock False (Some (IntegerLiteral 1))
              [Declaration (DeclarationStatement ''b'' (IntegerLiteral 20))]
          # [])
       = Some (Inr None, ?stab)"
    by (simp only: body2 option.case prod.case sum.case runEqualCases.simps)
  with target operable p0 m1 body1 pz m2 show ?thesis by blast
qed

lemma name_engine_fields:
  "kernel name_engine = exact_host"
  "ValidateExpression name_engine =
     (\<lambda>st e. case e of
                Literal v \<Rightarrow> Inr (Class_of v)
              | Name x \<Rightarrow>
                 (case local st x of
                    Some (ClassObject c) \<Rightarrow> Inr c
                  | Some (ValueObj v) \<Rightarrow> Inr (Class_of v)
                  | _ \<Rightarrow> Inl (NodeError (''undefined: '' @ x))))"
  "ResolveTypeExpression name_engine = (\<lambda>st t. Inr t)"
  by (simp_all add: name_engine_def)

lemma ShouldConstruct_Integer_Integer: "ShouldConstruct h Integer Integer = None"
  by (simp add: ShouldConstruct_def Integer_Constructors_def reg_defs Let_def)

text \<open>
  Claim C7. \<open>ValidateIfStatementReturns\<close> answers true exactly when the body definitely
  returns and there is an alternate, an else-if or an else block, that definitely returns.
  So a function declared to return Integer whose body is the single statement
  \<open>if cond { return e }\<close> fails \<open>ResolveFunctionBlock\<close> with "expected return", when
  in the function's scope table (the clone with the arguments and \<open>self\<close> bound)
  \<open>cond\<close> is a Boolean, \<open>e\<close> an Integer and the return type resolves to Integer.
\<close>

theorem if_without_else_does_not_return:
  assumes args: "ResolveArgumentList E (Clone st) Arguments = (Inr args, sc)"
    and scope: "scopeTable = (case proto of
                                Some p \<Rightarrow> sc\<lparr>immutable := (immutable sc)(''self'' \<mapsto> ValueObj p)\<rparr>
                              | None \<Rightarrow> sc)"
    and cond: "ValidateExpression E scopeTable cond = Inr Boolean"
    and ret: "ValidateExpression E scopeTable e = Inr Integer"
    and rt: "ResolveTypeExpression E scopeTable returnType = Inr Integer"
  shows "(ValidateIfStatementReturns E t (IfStatement c body alt) R = Inr True \<longleftrightarrow>
            ValidateBlockReturns E t body R = Inr True \<and>
            ((\<exists>i. alt = Alternate_IfStatement i \<and> ValidateIfStatementReturns E t i R = Inr True)
             \<or> (\<exists>b. alt = Alternate_Block b \<and> ValidateBlockReturns E t b R = Inr True)))
         \<and> ResolveFunctionBlock E n st
              (FunctionBlock Arguments (Some returnType)
                 [If (IfStatement cond [ReturnStatement e] No_Alternate)]) proto
             = Inl (NodeError ''expected return'')"
proof
  show "ValidateIfStatementReturns E t (IfStatement c body alt) R = Inr True \<longleftrightarrow>
            ValidateBlockReturns E t body R = Inr True \<and>
            ((\<exists>i. alt = Alternate_IfStatement i \<and> ValidateIfStatementReturns E t i R = Inr True)
             \<or> (\<exists>b. alt = Alternate_Block b \<and> ValidateBlockReturns E t b R = Inr True))"
    by (cases alt) (auto split: sum.splits)
next
  have vb: "ValidateBlock E scopeTable [If (IfStatement cond [ReturnStatement e] No_Alternate)]
              = (None, scopeTable)"
    by (simp add: cond ret)
  have vr: "ValidateBlockReturns E scopeTable
              [If (IfStatement cond [ReturnStatement e] No_Alternate)] Integer = Inr False"
    by (simp add: ret ShouldConstruct_Integer_Integer)
  show "ResolveFunctionBlock E n st
              (FunctionBlock Arguments (Some returnType)
                 [If (IfStatement cond [ReturnStatement e] No_Alternate)]) proto
             = Inl (NodeError ''expected return'')"
  proof (cases "Arguments = []")
    case True
    then have "Clone st = sc" using args by simp
    then show ?thesis
      unfolding ResolveFunctionBlock_def using True
      by (simp add: scope [symmetric] vb vr rt Let_def
            del: ValidateBlock.simps ValidateBlockReturns.simps)
  next
    case False
    then show ?thesis
      unfolding ResolveFunctionBlock_def
      by (simp add: args scope [symmetric] vb vr rt Let_def
            del: ValidateBlock.simps ValidateBlockReturns.simps)
  qed
qed

text \<open>
  \<open>fn (cond: Boolean): Integer { if cond { return 1 } }\<close>, whose condition is a name that
  is bound only in the scope table.
\<close>

theorem if_without_else_does_not_return_witness:
  "ResolveArgumentList name_engine (Clone \<lparr>local = Map.empty, immutable = Map.empty\<rparr>)
       [ArgumentItem ''cond'' Boolean]
     = (Inr [Boolean], \<lparr>local = [''cond'' \<mapsto> ClassObject Boolean], immutable = Map.empty\<rparr>)
   \<and> ValidateExpression name_engine
         \<lparr>local = [''cond'' \<mapsto> ClassObject Boolean], immutable = Map.empty\<rparr> (Name ''cond'')
       = Inr Boolean
   \<and> ValidateExpression name_engine
         \<lparr>local = [''cond'' \<mapsto> ClassObject Boolean], immutable = Map.empty\<rparr>
         (Literal (IntegerLiteral 1))
       = Inr Integer
   \<and> ResolveTypeExpression name_engine
         \<lparr>local = [''cond'' \<mapsto> ClassObject Boolean], immutable = Map.empty\<rparr> Integer
       = Inr Integer
   \<and> ValidateExpression name_engine \<lparr>local = Map.empty, immutable = Map.empty\<rparr> (Name ''cond'')
       = Inl (NodeError ''undefined: cond'')
   \<and> ResolveFunctionBlock name_engine 1 \<lparr>local = Map.empty, immutable = Map.empty\<rparr>
        (FunctionBlock [ArgumentItem ''cond'' Boolean] (Some Integer)
           [If (IfStatement (Name ''cond'') [ReturnStatement (Literal (IntegerLiteral 1))] No_Alternate)])
        None
       = Inl (NodeError ''expected return'')"
proof -
  let ?st = "\<lparr>local = Map.empty, immutable = Map.empty\<rparr> :: real SymbolTable"
  let ?sc = "\<lparr>local = [''cond'' \<mapsto> ClassObject Boolean], immutable = Map.empty\<rparr> :: real SymbolTable"
  have args: "ResolveArgumentList name_engine (Clone ?st) [ArgumentItem ''cond'' Boolean]
                = (Inr [Boolean], ?sc)"
    by (simp add: Clone_def name_engine_fields)
  have scope: "?sc = (case (None :: real ValueObject option) of
                        Some p \<Rightarrow> ?sc\<lparr>immutable := (immutable ?sc)(''self'' \<mapsto> ValueObj p)\<rparr>
                      | None \<Rightarrow> ?sc)"
    by simp
  have cond: "ValidateExpression name_engine ?sc (Name ''cond'') = Inr Boolean"
    and ret: "ValidateExpression name_engine ?sc (Literal (IntegerLiteral 1)) = Inr Integer"
    and rt: "ResolveTypeExpression name_engine ?sc Integer = Inr Integer"
    and undefined: "ValidateExpression name_engine ?st (Name ''cond'') = Inl (NodeError ''undefined: cond'')"
    by (simp_all add: name_engine_fields)
  from if_without_else_does_not_return [OF args scope cond ret rt, of _ _ _ _ _ 1]
  have "ResolveFunctionBlock name_engine 1 ?st
        (FunctionBlock [ArgumentItem ''cond'' Boolean] (Some Integer)
           [If (IfStatement (Name ''cond'') [ReturnStatement (Literal (IntegerLiteral 1))] No_Alternate)])
        None
       = Inl (NodeError ''expected return'')"
    by blast
  with args cond ret rt undefined show ?thesis by blast
qed

end
